theory Spec2Isabelle
  imports Complex_Main "HOL-Library.Word"
begin

section \<open>Values of the host language and of the C ABI\<close>

text \<open>
  The binding is Python over \<open>ctypes\<close>. C values keep their width: \<open>c_int\<close> is a
  32-bit word read back as a signed integer (\<open>.value\<close> is \<open>sint\<close>), \<open>c_ubyte\<close> an 8-bit
  word read back unsigned (\<open>uint\<close>), \<open>c_bool\<close> a boolean. A \<open>c_float\<close> is kept as the
  real number it denotes.
\<close>

type_synonym c_int = "32 word"
type_synonym c_ubyte = "8 word"
type_synonym c_bool = bool
type_synonym c_float = real

definition c_int :: "int \<Rightarrow> c_int" where
  "c_int v = word_of_int v"

definition c_bool :: "bool \<Rightarrow> c_bool" where
  "c_bool v = v"

definition EAF_ID_MAX :: nat where
  "EAF_ID_MAX = 128"

definition EFW_ID_MAX :: nat where
  "EFW_ID_MAX = 128"

text \<open>The ctypes structures, one field per entry of \<open>_fields_\<close>.\<close>

record EAF_INFO =
  eaf_ID :: c_int
  eaf_Name :: "c_ubyte list"
  eaf_MaxStep :: c_int

record EAF_ID =
  EAF_ID_id :: "c_ubyte list"

record EFW_INFO =
  efw_ID :: c_int
  efw_Name :: "c_ubyte list"
  efw_slotNum :: c_int

record EFW_ID =
  EFW_ID_id :: "c_ubyte list"

text \<open>A freshly constructed structure is zero-filled.\<close>

definition EAF_INFO_new :: EAF_INFO where
  "EAF_INFO_new = \<lparr>eaf_ID = 0, eaf_Name = replicate 64 0, eaf_MaxStep = 0\<rparr>"

definition EAF_ID_new :: EAF_ID where
  "EAF_ID_new = \<lparr>EAF_ID_id = replicate 8 0\<rparr>"

definition EFW_INFO_new :: EFW_INFO where
  "EFW_INFO_new = \<lparr>efw_ID = 0, efw_Name = replicate 64 0, efw_slotNum = 0\<rparr>"

definition EFW_ID_new :: EFW_ID where
  "EFW_ID_new = \<lparr>EFW_ID_id = replicate 8 0\<rparr>"

text \<open>
  What a foreign function hands back once ctypes has converted it: a Python integer for
  a \<open>c_int\<close> result type, and bytes or \<open>None\<close> (a null pointer) for a \<open>c_char_p\<close> one. The
  prototypes in \<open>_functions_\<close> use no other result type.
\<close>

datatype cresult =
    RInt int
  | RBytes "c_ubyte list"
  | RNone

text \<open>Truth value of such an object, as \<open>if result\<close> and \<open>not result\<close> test it.\<close>

fun truthy :: "cresult \<Rightarrow> bool" where
  "truthy (RInt n) = (n \<noteq> 0)"
| "truthy (RBytes bs) = (bs \<noteq> [])"
| "truthy RNone = False"

text \<open>
  Python is dynamically typed, and sibling methods of the two clients return values of
  different Python types; the values a method can hand to its caller are therefore one
  datatype. \<open>py_of\<close> is the identity on objects: the same object seen as a return value.
\<close>

datatype pyval =
    PNone
  | PBool bool
  | PInt int
  | PFloat real
  | PStr string
  | PBytes "c_ubyte list"
  | PTuple "pyval list"
  | PDict "(string \<times> pyval) list"
  | PEafInfo EAF_INFO
  | PEafId EAF_ID
  | PEfwInfo EFW_INFO
  | PEfwId EFW_ID

fun py_of :: "cresult \<Rightarrow> pyval" where
  "py_of (RInt n) = PInt n"
| "py_of (RBytes bs) = PBytes bs"
| "py_of RNone = PNone"

text \<open>Exceptions are values: those the binding defines, and the builtin ones it lets through.\<close>

datatype pyexc =
    ZwoFocuserError string
  | ZwoFilterWheelError string
  | ValueError cresult
  | KeyError string
  | TypeError
  | UnicodeDecodeError

text \<open>\<open>xs[:n]\<close>: a negative bound counts from the end, and bounds are clipped to the sequence.\<close>

definition py_slice_upto :: "'a list \<Rightarrow> int \<Rightarrow> 'a list" where
  "py_slice_upto xs n = (if n < 0 then take (nat (int (length xs) + n)) xs else take (nat n) xs)"

text \<open>\<open>str\<close> of an integer, as an f-string renders it: decimal, with a minus sign.\<close>

fun str_nat :: "nat \<Rightarrow> string" where
  "str_nat n = (if n < 10 then [''0123456789'' ! n]
                else str_nat (n div 10) @ [''0123456789'' ! (n mod 10)])"

declare str_nat.simps [simp del]

definition str_int :: "int \<Rightarrow> string" where
  "str_int i = (if i < 0 then ''-'' @ str_nat (nat (- i)) else str_nat (nat i))"

text \<open>
  \<open>bytes(v)\<close>: a bytes object is copied, \<open>None\<close> is refused with \<open>TypeError\<close>, and an integer
  \<open>n\<close> gives \<open>n\<close> zero bytes, a negative count being refused with \<open>ValueError\<close>.
\<close>

definition py_bytes :: "cresult \<Rightarrow> pyexc + c_ubyte list" where
  "py_bytes v =
     (case v of
        RBytes bs \<Rightarrow> Inr bs
      | RNone \<Rightarrow> Inl TypeError
      | RInt n \<Rightarrow> (if n < 0 then Inl (ValueError v) else Inr (replicate (nat n) 0)))"

text \<open>\<open>bs.decode("ascii")\<close>: every byte below 128 is its character; any other byte is refused.\<close>

definition decode_ascii :: "c_ubyte list \<Rightarrow> pyexc + string" where
  "decode_ascii bs =
     (if list_all (\<lambda>b. b < 128) bs then Inr (map (\<lambda>b. char_of (uint b)) bs)
      else Inl UnicodeDecodeError)"

text \<open>\<open>int.from_bytes(bs, "big")\<close>: the most significant byte comes first.\<close>

definition from_bytes_big :: "c_ubyte list \<Rightarrow> int" where
  "from_bytes_big bs = foldl (\<lambda>acc b. acc * 256 + uint b) 0 bs"

text \<open>Subscripting a dict raises \<open>KeyError\<close> on a missing key.\<close>

definition dict_getitem :: "(string \<times> 'v) list \<Rightarrow> string \<Rightarrow> pyexc + 'v" where
  "dict_getitem d k = (case map_of d k of None \<Rightarrow> Inl (KeyError k) | Some v \<Rightarrow> Inr v)"

section \<open>Library resolver (module level of \<open>eaf.py\<close> and \<open>efw.py\<close>)\<close>

text \<open>
  A request to the dynamic loader: the components of the path handed to \<open>CDLL\<close>, and
  whether the symbols go to the global namespace (\<open>mode=RTLD_GLOBAL\<close>).
\<close>

record load_request =
  load_path :: "string list"
  load_global :: bool

text \<open>
  \<open>_load_lib\<close>: on POSIX the udev helper is loaded globally first, then the device library
  from below the module's own directory \<open>here\<close> (\<open>os.path.dirname(__file__)\<close>). The result
  lists the loads in the order they are made.
\<close>

definition eaf_load_lib :: "string \<Rightarrow> string \<Rightarrow> string \<Rightarrow> string \<Rightarrow> load_request list" where
  "eaf_load_lib os_name here arch name =
     (if os_name = ''posix'' then [\<lparr>load_path = [''libudev.so''], load_global = True\<rparr>] else [])
     @ [\<lparr>load_path = [here, ''libs'', arch, name], load_global = False\<rparr>]"

definition efw_load_lib :: "string \<Rightarrow> string \<Rightarrow> string \<Rightarrow> string \<Rightarrow> load_request list" where
  "efw_load_lib os_name here arch name =
     (if os_name = ''posix'' then [\<lparr>load_path = [''libudev.so''], load_global = True\<rparr>] else [])
     @ [\<lparr>load_path = [here, ''libs'', ''efw'', arch, name], load_global = False\<rparr>]"

definition eaf_arch_table :: "(string \<times> (string \<times> string \<times> string) list) list" where
  "eaf_arch_table =
     [(''posix'', [(''32bit'', (''linux32'', ''libEAFFocuser.so'')),
                   (''64bit'', (''linux64'', ''libEAFFocuser.so''))]),
      (''nt'',    [(''32bit'', (''win32'', ''EAF_focuser.dll'')),
                   (''64bit'', (''win64'', ''EAF_focuser.dll''))])]"

definition efw_arch_table :: "(string \<times> (string \<times> string \<times> string) list) list" where
  "efw_arch_table =
     [(''posix'', [(''32bit'', (''linux32'', ''libEFWFilter.so'')),
                   (''64bit'', (''linux64'', ''libEFWFilter.so''))]),
      (''nt'',    [(''32bit'', (''win32'', ''EFW_filter.dll'')),
                   (''64bit'', (''win64'', ''EFW_filter.dll''))])]"

text \<open>
  \<open>arch = {...}[os.name][architecture()[0]]\<close>: two subscripts, the outer by the OS family
  \<open>os_name\<close>, the inner by the word width \<open>bits\<close>.
\<close>

definition eaf_arch :: "string \<Rightarrow> string \<Rightarrow> pyexc + string \<times> string" where
  "eaf_arch os_name bits =
     (case dict_getitem eaf_arch_table os_name of
        Inl e \<Rightarrow> Inl e
      | Inr by_bits \<Rightarrow> dict_getitem by_bits bits)"

definition efw_arch :: "string \<Rightarrow> string \<Rightarrow> pyexc + string \<times> string" where
  "efw_arch os_name bits =
     (case dict_getitem efw_arch_table os_name of
        Inl e \<Rightarrow> Inl e
      | Inr by_bits \<Rightarrow> dict_getitem by_bits bits)"

text \<open>
  Importing the module runs its top level in order: the table lookup, then \<open>_load_lib\<close>,
  and only then the rest (the class definitions and whatever the importing program does
  with them), which is the continuation \<open>rest\<close> here. An exception at the lookup ends the
  import.
\<close>

definition eaf_import ::
  "string \<Rightarrow> string \<Rightarrow> string \<Rightarrow> (load_request list \<Rightarrow> pyexc + 'a) \<Rightarrow> pyexc + 'a" where
  "eaf_import os_name bits here rest =
     (case eaf_arch os_name bits of
        Inl e \<Rightarrow> Inl e
      | Inr (arch, name) \<Rightarrow> rest (eaf_load_lib os_name here arch name))"

definition efw_import ::
  "string \<Rightarrow> string \<Rightarrow> string \<Rightarrow> (load_request list \<Rightarrow> pyexc + 'a) \<Rightarrow> pyexc + 'a" where
  "efw_import os_name bits here rest =
     (case efw_arch os_name bits of
        Inl e \<Rightarrow> Inl e
      | Inr (arch, name) \<Rightarrow> rest (efw_load_lib os_name here arch name))"

section \<open>Error codes\<close>

datatype EAF_ERROR_CODE =
    EAF_SUCCESS
  | EAF_ERROR_INVALID_INDEX
  | EAF_ERROR_INVALID_ID
  | EAF_ERROR_INVALID_VALUE
  | EAF_ERROR_REMOVED
  | EAF_ERROR_MOVING
  | EAF_ERROR_ERROR_STATE
  | EAF_ERROR_GENERAL_ERROR
  | EAF_ERROR_NOT_SUPPORTED
  | EAF_ERROR_CLOSED
  | EAF_ERROR_END

text \<open>The members in definition order with their values: \<open>auto()\<close> counts on from 0.\<close>

definition EAF_ERROR_CODE_members :: "(EAF_ERROR_CODE \<times> string \<times> int) list" where
  "EAF_ERROR_CODE_members =
     [(EAF_SUCCESS, ''EAF_SUCCESS'', 0),
      (EAF_ERROR_INVALID_INDEX, ''EAF_ERROR_INVALID_INDEX'', 1),
      (EAF_ERROR_INVALID_ID, ''EAF_ERROR_INVALID_ID'', 2),
      (EAF_ERROR_INVALID_VALUE, ''EAF_ERROR_INVALID_VALUE'', 3),
      (EAF_ERROR_REMOVED, ''EAF_ERROR_REMOVED'', 4),
      (EAF_ERROR_MOVING, ''EAF_ERROR_MOVING'', 5),
      (EAF_ERROR_ERROR_STATE, ''EAF_ERROR_ERROR_STATE'', 6),
      (EAF_ERROR_GENERAL_ERROR, ''EAF_ERROR_GENERAL_ERROR'', 7),
      (EAF_ERROR_NOT_SUPPORTED, ''EAF_ERROR_NOT_SUPPORTED'', 8),
      (EAF_ERROR_CLOSED, ''EAF_ERROR_CLOSED'', 9),
      (EAF_ERROR_END, ''EAF_ERROR_END'', -1)]"

datatype EFW_ERROR_CODE =
    EFW_SUCCESS
  | EFW_ERROR_INVALID_INDEX
  | EFW_ERROR_INVALID_ID
  | EFW_ERROR_INVALID_VALUE
  | EFW_ERROR_REMOVED
  | EFW_ERROR_MOVING
  | EFW_ERROR_ERROR_STATE
  | EFW_ERROR_GENERAL_ERROR
  | EFW_ERROR_NOT_SUPPORTED
  | EFW_ERROR_CLOSED
  | EFW_ERROR_END

definition EFW_ERROR_CODE_members :: "(EFW_ERROR_CODE \<times> string \<times> int) list" where
  "EFW_ERROR_CODE_members =
     [(EFW_SUCCESS, ''EFW_SUCCESS'', 0),
      (EFW_ERROR_INVALID_INDEX, ''EFW_ERROR_INVALID_INDEX'', 1),
      (EFW_ERROR_INVALID_ID, ''EFW_ERROR_INVALID_ID'', 2),
      (EFW_ERROR_INVALID_VALUE, ''EFW_ERROR_INVALID_VALUE'', 3),
      (EFW_ERROR_REMOVED, ''EFW_ERROR_REMOVED'', 4),
      (EFW_ERROR_MOVING, ''EFW_ERROR_MOVING'', 5),
      (EFW_ERROR_ERROR_STATE, ''EFW_ERROR_ERROR_STATE'', 6),
      (EFW_ERROR_GENERAL_ERROR, ''EFW_ERROR_GENERAL_ERROR'', 7),
      (EFW_ERROR_NOT_SUPPORTED, ''EFW_ERROR_NOT_SUPPORTED'', 8),
      (EFW_ERROR_CLOSED, ''EFW_ERROR_CLOSED'', 9),
      (EFW_ERROR_END, ''EFW_ERROR_END'', -1)]"

text \<open>
  Calling an enumeration on a value, \<open>E(v)\<close>, returns the member whose value equals \<open>v\<close> and
  raises \<open>ValueError\<close> when there is none. \<open>enum_name\<close> and \<open>enum_value\<close> are the \<open>.name\<close> and
  the \<open>.value\<close> of a member.
\<close>

definition enum_name :: "'e \<times> string \<times> int \<Rightarrow> string" where
  "enum_name m = fst (snd m)"

definition enum_value :: "'e \<times> string \<times> int \<Rightarrow> int" where
  "enum_value m = snd (snd m)"

definition enum_call :: "('e \<times> string \<times> int) list \<Rightarrow> cresult \<Rightarrow> pyexc + 'e \<times> string \<times> int" where
  "enum_call members v =
     (case v of
        RInt i \<Rightarrow>
          (case find (\<lambda>m. enum_value m = i) members of
             None \<Rightarrow> Inl (ValueError v)
           | Some m \<Rightarrow> Inr m)
      | _ \<Rightarrow> Inl (ValueError v))"

section \<open>Error mapper (\<open>ZwoEafDevice.__call__\<close>, \<open>ZwoEfwDevice.__call__\<close>)\<close>

definition eaf_special_names :: "string list" where
  "eaf_special_names = [''EAFGetNum'', ''EAFGetProductIDs'', ''EAFGetSDKVersion'', ''EAFCheck'']"

definition efw_special_names :: "string list" where
  "efw_special_names = [''EFWGetNum'', ''EFWGetProductIDs'', ''EFWGetSDKVersion'']"

text \<open>
  \<open>name\<close> is \<open>self.name\<close>, set by \<open>__getattr__\<close> to the entry point asked for; \<open>result\<close> is
  what the foreign function returned, already converted by ctypes.
\<close>

definition ZwoEafDevice_call :: "string \<Rightarrow> cresult \<Rightarrow> pyexc + cresult" where
  "ZwoEafDevice_call name result =
     (if truthy result \<and> name \<notin> set eaf_special_names then
        (case enum_call EAF_ERROR_CODE_members result of
           Inl e \<Rightarrow> Inl e
         | Inr m \<Rightarrow> Inl (ZwoFocuserError (enum_name m)))
      else Inr result)"

text \<open>
  In the message, \<open>{result}\<close> is rendered only where the lookup found a member, so \<open>result\<close>
  is the integer that is the member's value.
\<close>

definition ZwoEfwDevice_call :: "string \<Rightarrow> cresult \<Rightarrow> pyexc + cresult" where
  "ZwoEfwDevice_call name result =
     (if truthy result \<and> name \<notin> set efw_special_names then
        (case enum_call EFW_ERROR_CODE_members result of
           Inl e \<Rightarrow> Inl e
         | Inr m \<Rightarrow>
             Inl (ZwoFilterWheelError
                    (name @ '' error '' @ str_int (enum_value m) @ '' ('' @ enum_name m @ '')'')))
      else Inr result)"

section \<open>Device clients\<close>

text \<open>
  The vendor library is outside the binding, so every method takes the entry point it
  calls as its first argument \<open>native\<close>: a function of the marshalled arguments and of the
  content of each by-reference argument before the call, returning the C return value
  and the content of the by-reference arguments after the call. An entry point without
  arguments is just its return value. \<open>restype_c_int\<close> is the conversion ctypes applies to
  a \<open>c_int\<close> return value, \<open>restype_c_char_p\<close> the one it applies to a \<open>c_char_p\<close> return value:
  a null pointer (\<open>None\<close> here) becomes \<open>None\<close>, any other the bytes of the C string.
\<close>

definition restype_c_int :: "c_int \<Rightarrow> cresult" where
  "restype_c_int r = RInt (sint r)"

definition restype_c_char_p :: "c_ubyte list option \<Rightarrow> cresult" where
  "restype_c_char_p p = (case p of None \<Rightarrow> RNone | Some bs \<Rightarrow> RBytes bs)"

subsection \<open>\<open>Focuser\<close>\<close>

definition EAFGetNum :: "c_int \<Rightarrow> pyexc + pyval" where
  "EAFGetNum native =
     (case ZwoEafDevice_call ''EAFGetNum'' (restype_c_int native) of
        Inl e \<Rightarrow> Inl e
      | Inr result \<Rightarrow> Inr (py_of result))"

definition EAFGetProductIDs :: "(c_int list \<Rightarrow> c_int \<times> c_int list) \<Rightarrow> pyexc + pyval" where
  "EAFGetProductIDs native =
     (case native (replicate EAF_ID_MAX 0) of
        (ret, pid_array) \<Rightarrow>
          (case ZwoEafDevice_call ''EAFGetProductIDs'' (restype_c_int ret) of
             Inl e \<Rightarrow> Inl e
           | Inr pid_array_len \<Rightarrow>
               (case pid_array_len of
                  RInt n \<Rightarrow> Inr (PTuple (map (\<lambda>w. PInt (sint w)) (py_slice_upto pid_array n)))
                | _ \<Rightarrow> Inl TypeError)))"

definition EAFCheck :: "(c_int \<Rightarrow> c_int \<Rightarrow> c_int) \<Rightarrow> int \<Rightarrow> int \<Rightarrow> pyexc + pyval" where
  "EAFCheck native vid pid =
     (case ZwoEafDevice_call ''EAFCheck'' (restype_c_int (native (c_int vid) (c_int pid))) of
        Inl e \<Rightarrow> Inl e
      | Inr result \<Rightarrow> Inr (py_of result))"

definition EAFGetID :: "(c_int \<Rightarrow> c_int \<Rightarrow> c_int \<times> c_int) \<Rightarrow> int \<Rightarrow> pyexc + pyval" where
  "EAFGetID native index =
     (case native (c_int index) 0 of
        (ret, ids) \<Rightarrow>
          (case ZwoEafDevice_call ''EAFGetID'' (restype_c_int ret) of
             Inl e \<Rightarrow> Inl e
           | Inr result \<Rightarrow> Inr (PInt (sint ids))))"

definition EAFOpen :: "(c_int \<Rightarrow> c_int) \<Rightarrow> int \<Rightarrow> pyexc + pyval" where
  "EAFOpen native ids =
     (case ZwoEafDevice_call ''EAFOpen'' (restype_c_int (native (c_int ids))) of
        Inl e \<Rightarrow> Inl e
      | Inr result \<Rightarrow> Inr (PBool (\<not> truthy result)))"

definition EAFGetProperty :: "(c_int \<Rightarrow> EAF_INFO \<Rightarrow> c_int \<times> EAF_INFO) \<Rightarrow> int \<Rightarrow> pyexc + pyval" where
  "EAFGetProperty native ids =
     (case native (c_int ids) EAF_INFO_new of
        (ret, info) \<Rightarrow>
          (case ZwoEafDevice_call ''EAFGetProperty'' (restype_c_int ret) of
             Inl e \<Rightarrow> Inl e
           | Inr result \<Rightarrow> Inr (PEafInfo info)))"

definition EAFMove :: "(c_int \<Rightarrow> c_int \<Rightarrow> c_int) \<Rightarrow> int \<Rightarrow> int \<Rightarrow> pyexc + pyval" where
  "EAFMove native ids position =
     (case ZwoEafDevice_call ''EAFMove'' (restype_c_int (native (c_int ids) (c_int position))) of
        Inl e \<Rightarrow> Inl e
      | Inr result \<Rightarrow> Inr (PBool (\<not> truthy result)))"

definition EAFStop :: "(c_int \<Rightarrow> c_int) \<Rightarrow> int \<Rightarrow> pyexc + pyval" where
  "EAFStop native ids =
     (case ZwoEafDevice_call ''EAFStop'' (restype_c_int (native (c_int ids))) of
        Inl e \<Rightarrow> Inl e
      | Inr result \<Rightarrow> Inr (PBool (\<not> truthy result)))"

definition EAFIsMoving ::
  "(c_int \<Rightarrow> c_bool \<Rightarrow> c_bool \<Rightarrow> c_int \<times> c_bool \<times> c_bool) \<Rightarrow> int \<Rightarrow> pyexc + pyval" where
  "EAFIsMoving native ids =
     (case native (c_int ids) False False of
        (ret, moving, hand_control) \<Rightarrow>
          (case ZwoEafDevice_call ''EAFIsMoving'' (restype_c_int ret) of
             Inl e \<Rightarrow> Inl e
           | Inr result \<Rightarrow>
               Inr (PDict [(''moving'', PBool moving), (''hand_control'', PBool hand_control)])))"

definition EAFGetPosition :: "(c_int \<Rightarrow> c_int \<Rightarrow> c_int \<times> c_int) \<Rightarrow> int \<Rightarrow> pyexc + pyval" where
  "EAFGetPosition native ids =
     (case native (c_int ids) 0 of
        (ret, position) \<Rightarrow>
          (case ZwoEafDevice_call ''EAFGetPosition'' (restype_c_int ret) of
             Inl e \<Rightarrow> Inl e
           | Inr result \<Rightarrow> Inr (PInt (sint position))))"

definition EAFResetPostion :: "(c_int \<Rightarrow> c_int \<Rightarrow> c_int) \<Rightarrow> int \<Rightarrow> int \<Rightarrow> pyexc + pyval" where
  "EAFResetPostion native ids position =
     (case ZwoEafDevice_call ''EAFResetPostion'' (restype_c_int (native (c_int ids) (c_int position))) of
        Inl e \<Rightarrow> Inl e
      | Inr result \<Rightarrow> Inr (PBool (\<not> truthy result)))"

definition EAFGetTemp :: "(c_int \<Rightarrow> c_float \<Rightarrow> c_int \<times> c_float) \<Rightarrow> int \<Rightarrow> pyexc + pyval" where
  "EAFGetTemp native ids =
     (case native (c_int ids) 0 of
        (ret, temperature) \<Rightarrow>
          (case ZwoEafDevice_call ''EAFGetTemp'' (restype_c_int ret) of
             Inl e \<Rightarrow> Inl e
           | Inr result \<Rightarrow> Inr (PFloat temperature)))"

definition EAFSetBeep :: "(c_int \<Rightarrow> c_bool \<Rightarrow> c_int) \<Rightarrow> int \<Rightarrow> bool \<Rightarrow> pyexc + pyval" where
  "EAFSetBeep native ids beep =
     (case ZwoEafDevice_call ''EAFSetBeep'' (restype_c_int (native (c_int ids) (c_bool beep))) of
        Inl e \<Rightarrow> Inl e
      | Inr result \<Rightarrow> Inr (PBool (\<not> truthy result)))"

definition EAFGetBeep :: "(c_int \<Rightarrow> c_bool \<Rightarrow> c_int \<times> c_bool) \<Rightarrow> int \<Rightarrow> pyexc + pyval" where
  "EAFGetBeep native ids =
     (case native (c_int ids) False of
        (ret, beep) \<Rightarrow>
          (case ZwoEafDevice_call ''EAFGetBeep'' (restype_c_int ret) of
             Inl e \<Rightarrow> Inl e
           | Inr result \<Rightarrow> Inr (PBool beep)))"

definition EAFSetMaxStep :: "(c_int \<Rightarrow> c_int \<Rightarrow> c_int) \<Rightarrow> int \<Rightarrow> int \<Rightarrow> pyexc + pyval" where
  "EAFSetMaxStep native ids position =
     (case ZwoEafDevice_call ''EAFSetMaxStep'' (restype_c_int (native (c_int ids) (c_int position))) of
        Inl e \<Rightarrow> Inl e
      | Inr result \<Rightarrow> Inr (PBool (\<not> truthy result)))"

definition EAFGetMaxStep :: "(c_int \<Rightarrow> c_int \<Rightarrow> c_int \<times> c_int) \<Rightarrow> int \<Rightarrow> pyexc + pyval" where
  "EAFGetMaxStep native ids =
     (case native (c_int ids) 0 of
        (ret, position) \<Rightarrow>
          (case ZwoEafDevice_call ''EAFGetMaxStep'' (restype_c_int ret) of
             Inl e \<Rightarrow> Inl e
           | Inr result \<Rightarrow> Inr (PInt (sint position))))"

definition EAFStepRange :: "(c_int \<Rightarrow> c_int \<Rightarrow> c_int \<times> c_int) \<Rightarrow> int \<Rightarrow> pyexc + pyval" where
  "EAFStepRange native ids =
     (case native (c_int ids) 0 of
        (ret, interval) \<Rightarrow>
          (case ZwoEafDevice_call ''EAFStepRange'' (restype_c_int ret) of
             Inl e \<Rightarrow> Inl e
           | Inr result \<Rightarrow> Inr (PInt (sint interval))))"

definition EAFSetReverse :: "(c_int \<Rightarrow> c_bool \<Rightarrow> c_int) \<Rightarrow> int \<Rightarrow> bool \<Rightarrow> pyexc + pyval" where
  "EAFSetReverse native ids direction =
     (case ZwoEafDevice_call ''EAFSetReverse'' (restype_c_int (native (c_int ids) (c_bool direction))) of
        Inl e \<Rightarrow> Inl e
      | Inr result \<Rightarrow> Inr (PBool (\<not> truthy result)))"

definition EAFGetReverse :: "(c_int \<Rightarrow> c_bool \<Rightarrow> c_int \<times> c_bool) \<Rightarrow> int \<Rightarrow> pyexc + pyval" where
  "EAFGetReverse native ids =
     (case native (c_int ids) False of
        (ret, direction) \<Rightarrow>
          (case ZwoEafDevice_call ''EAFGetReverse'' (restype_c_int ret) of
             Inl e \<Rightarrow> Inl e
           | Inr result \<Rightarrow> Inr (PBool direction)))"

definition EAFSetBacklash :: "(c_int \<Rightarrow> c_int \<Rightarrow> c_int) \<Rightarrow> int \<Rightarrow> int \<Rightarrow> pyexc + pyval" where
  "EAFSetBacklash native ids backlash =
     (case ZwoEafDevice_call ''EAFSetBacklash'' (restype_c_int (native (c_int ids) (c_int backlash))) of
        Inl e \<Rightarrow> Inl e
      | Inr result \<Rightarrow> Inr (PBool (\<not> truthy result)))"

definition EAFGetBacklash :: "(c_int \<Rightarrow> c_int \<Rightarrow> c_int \<times> c_int) \<Rightarrow> int \<Rightarrow> pyexc + pyval" where
  "EAFGetBacklash native ids =
     (case native (c_int ids) 0 of
        (ret, backlash) \<Rightarrow>
          (case ZwoEafDevice_call ''EAFGetBacklash'' (restype_c_int ret) of
             Inl e \<Rightarrow> Inl e
           | Inr result \<Rightarrow> Inr (PInt (sint backlash))))"

definition EAFClose :: "(c_int \<Rightarrow> c_int) \<Rightarrow> int \<Rightarrow> pyexc + pyval" where
  "EAFClose native ids =
     (case ZwoEafDevice_call ''EAFClose'' (restype_c_int (native (c_int ids))) of
        Inl e \<Rightarrow> Inl e
      | Inr result \<Rightarrow> Inr (PBool (\<not> truthy result)))"

definition EAFGetSDKVersion :: "c_ubyte list option \<Rightarrow> pyexc + pyval" where
  "EAFGetSDKVersion native =
     (case ZwoEafDevice_call ''EAFGetSDKVersion'' (restype_c_char_p native) of
        Inl e \<Rightarrow> Inl e
      | Inr result \<Rightarrow>
          (case py_bytes result of
             Inl e \<Rightarrow> Inl e
           | Inr bs \<Rightarrow>
               (case decode_ascii bs of
                  Inl e \<Rightarrow> Inl e
                | Inr s \<Rightarrow> Inr (PStr s))))"

definition EAFGetFirmwareVersion ::
  "(c_int \<Rightarrow> c_ubyte \<Rightarrow> c_ubyte \<Rightarrow> c_ubyte \<Rightarrow> c_int \<times> c_ubyte \<times> c_ubyte \<times> c_ubyte)
     \<Rightarrow> int \<Rightarrow> pyexc + pyval" where
  "EAFGetFirmwareVersion native ids =
     (case native (c_int ids) 0 0 0 of
        (ret, major, minor, build) \<Rightarrow>
          (case ZwoEafDevice_call ''EAFGetFirmwareVersion'' (restype_c_int ret) of
             Inl e \<Rightarrow> Inl e
           | Inr result \<Rightarrow>
               Inr (PStr (str_int (uint major) @ ''.'' @ str_int (uint minor) @ ''.'' @ str_int (uint build)))))"

definition EAFGetSerialNumber :: "(c_int \<Rightarrow> EAF_ID \<Rightarrow> c_int \<times> EAF_ID) \<Rightarrow> int \<Rightarrow> pyexc + pyval" where
  "EAFGetSerialNumber native ids =
     (case native (c_int ids) EAF_ID_new of
        (ret, serial) \<Rightarrow>
          (case ZwoEafDevice_call ''EAFGetSerialNumber'' (restype_c_int ret) of
             Inl e \<Rightarrow> Inl e
           | Inr result \<Rightarrow> Inr (PInt (from_bytes_big (EAF_ID_id serial)))))"

definition EAFSetID :: "(c_int \<Rightarrow> EAF_ID \<Rightarrow> c_int) \<Rightarrow> int \<Rightarrow> EAF_ID \<Rightarrow> pyexc + pyval" where
  "EAFSetID native ids eaf_id =
     (case ZwoEafDevice_call ''EAFSetID'' (restype_c_int (native (c_int ids) eaf_id)) of
        Inl e \<Rightarrow> Inl e
      | Inr result \<Rightarrow> Inr (PBool (\<not> truthy result)))"

subsection \<open>\<open>FilterWheel\<close>\<close>

definition EFWGetNum :: "c_int \<Rightarrow> pyexc + pyval" where
  "EFWGetNum native =
     (case ZwoEfwDevice_call ''EFWGetNum'' (restype_c_int native) of
        Inl e \<Rightarrow> Inl e
      | Inr result \<Rightarrow> Inr (py_of result))"

definition EFWGetProductIDs :: "(c_int list \<Rightarrow> c_int \<times> c_int list) \<Rightarrow> pyexc + pyval" where
  "EFWGetProductIDs native =
     (case native (replicate EFW_ID_MAX 0) of
        (ret, pid_array) \<Rightarrow>
          (case ZwoEfwDevice_call ''EFWGetProductIDs'' (restype_c_int ret) of
             Inl e \<Rightarrow> Inl e
           | Inr pid_array_len \<Rightarrow>
               (case pid_array_len of
                  RInt n \<Rightarrow> Inr (PTuple (map (\<lambda>w. PInt (sint w)) (py_slice_upto pid_array n)))
                | _ \<Rightarrow> Inl TypeError)))"

definition EFWGetID :: "(c_int \<Rightarrow> c_int \<Rightarrow> c_int \<times> c_int) \<Rightarrow> int \<Rightarrow> pyexc + pyval" where
  "EFWGetID native index =
     (case native (c_int index) 0 of
        (ret, ids) \<Rightarrow>
          (case ZwoEfwDevice_call ''EFWGetID'' (restype_c_int ret) of
             Inl e \<Rightarrow> Inl e
           | Inr result \<Rightarrow> Inr (PInt (sint ids))))"

definition EFWOpen :: "(c_int \<Rightarrow> c_int) \<Rightarrow> int \<Rightarrow> pyexc + pyval" where
  "EFWOpen native ids =
     (case ZwoEfwDevice_call ''EFWOpen'' (restype_c_int (native (c_int ids))) of
        Inl e \<Rightarrow> Inl e
      | Inr result \<Rightarrow> Inr (PBool True))"

definition EFWClose :: "(c_int \<Rightarrow> c_int) \<Rightarrow> int \<Rightarrow> pyexc + pyval" where
  "EFWClose native ids =
     (case ZwoEfwDevice_call ''EFWClose'' (restype_c_int (native (c_int ids))) of
        Inl e \<Rightarrow> Inl e
      | Inr result \<Rightarrow> Inr (PBool True))"

definition EFWGetProperty :: "(c_int \<Rightarrow> EFW_INFO \<Rightarrow> c_int \<times> EFW_INFO) \<Rightarrow> int \<Rightarrow> pyexc + pyval" where
  "EFWGetProperty native ids =
     (case native (c_int ids) EFW_INFO_new of
        (ret, info) \<Rightarrow>
          (case ZwoEfwDevice_call ''EFWGetProperty'' (restype_c_int ret) of
             Inl e \<Rightarrow> Inl e
           | Inr result \<Rightarrow> Inr (PEfwInfo info)))"

definition EFWGetPosition :: "(c_int \<Rightarrow> c_int \<Rightarrow> c_int \<times> c_int) \<Rightarrow> int \<Rightarrow> pyexc + pyval" where
  "EFWGetPosition native ids =
     (case native (c_int ids) 0 of
        (ret, position) \<Rightarrow>
          (case ZwoEfwDevice_call ''EFWGetPosition'' (restype_c_int ret) of
             Inl e \<Rightarrow> Inl e
           | Inr result \<Rightarrow> Inr (PInt (sint position))))"

definition EFWSetPosition :: "(c_int \<Rightarrow> c_int \<Rightarrow> c_int) \<Rightarrow> int \<Rightarrow> int \<Rightarrow> pyexc + pyval" where
  "EFWSetPosition native ids position =
     (case ZwoEfwDevice_call ''EFWSetPosition'' (restype_c_int (native (c_int ids) (c_int position))) of
        Inl e \<Rightarrow> Inl e
      | Inr result \<Rightarrow> Inr (PBool True))"

definition EFWSetDirection :: "(c_int \<Rightarrow> c_bool \<Rightarrow> c_int) \<Rightarrow> int \<Rightarrow> bool \<Rightarrow> pyexc + pyval" where
  "EFWSetDirection native ids direction =
     (case ZwoEfwDevice_call ''EFWSetDirection'' (restype_c_int (native (c_int ids) (c_bool direction))) of
        Inl e \<Rightarrow> Inl e
      | Inr result \<Rightarrow> Inr (PBool True))"

definition EFWGetDirection :: "(c_int \<Rightarrow> c_bool \<Rightarrow> c_int \<times> c_bool) \<Rightarrow> int \<Rightarrow> pyexc + pyval" where
  "EFWGetDirection native ids =
     (case native (c_int ids) False of
        (ret, direction) \<Rightarrow>
          (case ZwoEfwDevice_call ''EFWGetDirection'' (restype_c_int ret) of
             Inl e \<Rightarrow> Inl e
           | Inr result \<Rightarrow> Inr (PBool direction)))"

definition EFWCalibrate :: "(c_int \<Rightarrow> c_int) \<Rightarrow> int \<Rightarrow> pyexc + pyval" where
  "EFWCalibrate native ids =
     (case ZwoEfwDevice_call ''EFWCalibrate'' (restype_c_int (native (c_int ids))) of
        Inl e \<Rightarrow> Inl e
      | Inr result \<Rightarrow> Inr (PBool True))"

definition EFWGetSDKVersion :: "c_ubyte list option \<Rightarrow> pyexc + pyval" where
  "EFWGetSDKVersion native =
     (case ZwoEfwDevice_call ''EFWGetSDKVersion'' (restype_c_char_p native) of
        Inl e \<Rightarrow> Inl e
      | Inr result \<Rightarrow>
          (case py_bytes result of
             Inl e \<Rightarrow> Inl e
           | Inr bs \<Rightarrow> Inr (PBytes bs)))"

definition EFWGetHWErrorCode :: "(c_int \<Rightarrow> c_int \<Rightarrow> c_int \<times> c_int) \<Rightarrow> int \<Rightarrow> pyexc + pyval" where
  "EFWGetHWErrorCode native ids =
     (case native (c_int ids) 0 of
        (ret, errcode) \<Rightarrow>
          (case ZwoEfwDevice_call ''EFWGetHWErrorCode'' (restype_c_int ret) of
             Inl e \<Rightarrow> Inl e
           | Inr result \<Rightarrow> Inr (PInt (sint errcode))))"

definition EFWGetFirmwareVersion ::
  "(c_int \<Rightarrow> c_ubyte \<Rightarrow> c_ubyte \<Rightarrow> c_ubyte \<Rightarrow> c_int \<times> c_ubyte \<times> c_ubyte \<times> c_ubyte)
     \<Rightarrow> int \<Rightarrow> pyexc + pyval" where
  "EFWGetFirmwareVersion native ids =
     (case native (c_int ids) 0 0 0 of
        (ret, major, minor, build) \<Rightarrow>
          (case ZwoEfwDevice_call ''EFWGetFirmwareVersion'' (restype_c_int ret) of
             Inl e \<Rightarrow> Inl e
           | Inr result \<Rightarrow>
               Inr (PTuple [PInt (uint major), PInt (uint minor), PInt (uint build)])))"

definition EFWGetSerialNumber :: "(c_int \<Rightarrow> EFW_ID \<Rightarrow> c_int \<times> EFW_ID) \<Rightarrow> int \<Rightarrow> pyexc + pyval" where
  "EFWGetSerialNumber native ids =
     (case native (c_int ids) EFW_ID_new of
        (ret, serial) \<Rightarrow>
          (case ZwoEfwDevice_call ''EFWGetSerialNumber'' (restype_c_int ret) of
             Inl e \<Rightarrow> Inl e
           | Inr result \<Rightarrow> Inr (PEfwId serial)))"

definition EFWSetID :: "(c_int \<Rightarrow> EFW_ID \<Rightarrow> c_int) \<Rightarrow> int \<Rightarrow> EFW_ID \<Rightarrow> pyexc + pyval" where
  "EFWSetID native ids efw_id =
     (case ZwoEfwDevice_call ''EFWSetID'' (restype_c_int (native (c_int ids) efw_id)) of
        Inl e \<Rightarrow> Inl e
      | Inr result \<Rightarrow> Inr (PBool True))"

section \<open>Reference readings of byte strings and numerals\<close>

text \<open>
  The specification's reading of "big-endian unsigned integer", independent of how
  \<open>from_bytes_big\<close> computes it: the byte at index \<open>i\<close> of \<open>n\<close> bytes weighs \<open>256 ^ (n - 1 - i)\<close>.
\<close>

definition big_endian_value :: "c_ubyte list \<Rightarrow> int" where
  "big_endian_value bs = (\<Sum>i<length bs. uint (bs ! i) * 256 ^ (length bs - Suc i))"

text \<open>Reading a decimal numeral back, to check \<open>str_nat\<close> against.\<close>

definition decimal_value :: "string \<Rightarrow> nat" where
  "decimal_value s = foldl (\<lambda>acc c. 10 * acc + (of_char c - 48)) 0 s"

section \<open>Contracts of the boolean-valued operations\<close>

text \<open>
  What a caller can observe of a filter-wheel setter whose native call returned \<open>ret\<close>:
  the result is \<open>True\<close> exactly for a zero return, and an exception exactly for a nonzero
  one.
\<close>

definition wheel_bool_contract :: "c_int \<Rightarrow> pyexc + pyval \<Rightarrow> bool" where
  "wheel_bool_contract ret res =
     ((res = Inr (PBool True)) = (ret = 0) \<and> isl res = (ret \<noteq> 0))"

text \<open>
  The same for a focuser setter, with the exception told apart: \<open>False\<close> is never the
  result; a nonzero code of the enumeration raises \<open>ZwoFocuserError\<close>, any other nonzero
  code the \<open>ValueError\<close> of the failed enumeration lookup.
\<close>

definition focuser_bool_contract :: "c_int \<Rightarrow> pyexc + pyval \<Rightarrow> bool" where
  "focuser_bool_contract ret res =
     (res \<noteq> Inr (PBool False)
      \<and> (res = Inr (PBool True)) = (ret = 0)
      \<and> isl res = (ret \<noteq> 0)
      \<and> (\<exists>msg. res = Inl (ZwoFocuserError msg))
          = (ret \<noteq> 0 \<and> sint ret \<in> set (map enum_value EAF_ERROR_CODE_members))
      \<and> (res = Inl (ValueError (RInt (sint ret))))
          = (sint ret \<notin> set (map enum_value EAF_ERROR_CODE_members)))"

section \<open>Contracts of every guarded operation after a nonzero return\<close>

text \<open>
  What a caller can observe of an operation outside the allow-list whose native call
  returned \<open>ret\<close>, when \<open>ret\<close> is a nonzero member of the family's enumeration: the family's
  failure, named after the member (for the filter wheel inside the message that also
  names the entry point \<open>name\<close> and the code).
\<close>

definition eaf_known_code_contract :: "c_int \<Rightarrow> pyexc + pyval \<Rightarrow> bool" where
  "eaf_known_code_contract ret res =
     (\<forall>m \<in> set EAF_ERROR_CODE_members.
        ret \<noteq> 0 \<and> sint ret = enum_value m \<longrightarrow> res = Inl (ZwoFocuserError (enum_name m)))"

definition efw_known_code_contract :: "string \<Rightarrow> c_int \<Rightarrow> pyexc + pyval \<Rightarrow> bool" where
  "efw_known_code_contract name ret res =
     (\<forall>m \<in> set EFW_ERROR_CODE_members.
        ret \<noteq> 0 \<and> sint ret = enum_value m \<longrightarrow>
        res = Inl (ZwoFilterWheelError
                     (name @ '' error '' @ str_int (enum_value m) @ '' ('' @ enum_name m @ '')'')))"

text \<open>
  The same when \<open>ret\<close> is no member of the family's enumeration (so not 0 either): the
  \<open>ValueError\<close> of the failed lookup, carrying the code.
\<close>

definition eaf_unknown_code_contract :: "c_int \<Rightarrow> pyexc + pyval \<Rightarrow> bool" where
  "eaf_unknown_code_contract ret res =
     (sint ret \<notin> set (map enum_value EAF_ERROR_CODE_members) \<longrightarrow>
      res = Inl (ValueError (RInt (sint ret))))"

definition efw_unknown_code_contract :: "c_int \<Rightarrow> pyexc + pyval \<Rightarrow> bool" where
  "efw_unknown_code_contract ret res =
     (sint ret \<notin> set (map enum_value EFW_ERROR_CODE_members) \<longrightarrow>
      res = Inl (ValueError (RInt (sint ret))))"

section \<open>Facts about the error mappers\<close>

lemma truthy_restype: "truthy (restype_c_int r) = (r \<noteq> 0)"
  by (simp add: restype_c_int_def signed_eq_0_iff)

lemma eaf_call_special:
  "name \<in> set eaf_special_names \<Longrightarrow> ZwoEafDevice_call name result = Inr result"
  by (simp add: ZwoEafDevice_call_def)

lemma efw_call_special:
  "name \<in> set efw_special_names \<Longrightarrow> ZwoEfwDevice_call name result = Inr result"
  by (simp add: ZwoEfwDevice_call_def)

lemma eaf_call_zero: "ZwoEafDevice_call name (restype_c_int 0) = Inr (RInt 0)"
  by (simp add: ZwoEafDevice_call_def restype_c_int_def)

lemma efw_call_zero: "ZwoEfwDevice_call name (restype_c_int 0) = Inr (RInt 0)"
  by (simp add: ZwoEfwDevice_call_def restype_c_int_def)

lemma find_distinct_value:
  "distinct (map f xs) \<Longrightarrow> x \<in> set xs \<Longrightarrow> find (\<lambda>y. f y = f x) xs = Some x"
  by (induction xs) (auto simp: image_iff)

lemma eaf_values_distinct: "distinct (map enum_value EAF_ERROR_CODE_members)"
  by (simp add: EAF_ERROR_CODE_members_def enum_value_def)

lemma efw_values_distinct: "distinct (map enum_value EFW_ERROR_CODE_members)"
  by (simp add: EFW_ERROR_CODE_members_def enum_value_def)

lemma eaf_find_member:
  assumes "(e, nm, code) \<in> set EAF_ERROR_CODE_members"
  shows "find (\<lambda>m. enum_value m = code) EAF_ERROR_CODE_members = Some (e, nm, code)"
  using find_distinct_value [OF eaf_values_distinct assms] by (simp add: enum_value_def)

lemma efw_find_member:
  assumes "(e, nm, code) \<in> set EFW_ERROR_CODE_members"
  shows "find (\<lambda>m. enum_value m = code) EFW_ERROR_CODE_members = Some (e, nm, code)"
  using find_distinct_value [OF efw_values_distinct assms] by (simp add: enum_value_def)

lemma find_value_none:
  "code \<notin> set (map enum_value members) \<Longrightarrow> find (\<lambda>m. enum_value m = code) members = None"
  by (force simp: find_None_iff)

lemma find_value_some:
  "code \<in> set (map enum_value members) \<Longrightarrow> \<exists>m. find (\<lambda>m. enum_value m = code) members = Some m"
  by (cases "find (\<lambda>m. enum_value m = code) members") (force simp: find_None_iff)+

lemma eaf_call_known:
  assumes "name \<notin> set eaf_special_names" "code \<noteq> 0"
    and "(e, nm, code) \<in> set EAF_ERROR_CODE_members"
  shows "ZwoEafDevice_call name (RInt code) = Inl (ZwoFocuserError nm)"
  using assms(1,2) eaf_find_member [OF assms(3)]
  by (simp add: ZwoEafDevice_call_def enum_call_def enum_name_def)

lemma efw_call_known:
  assumes "name \<notin> set efw_special_names" "code \<noteq> 0"
    and "(e, nm, code) \<in> set EFW_ERROR_CODE_members"
  shows "ZwoEfwDevice_call name (RInt code)
         = Inl (ZwoFilterWheelError (name @ '' error '' @ str_int code @ '' ('' @ nm @ '')''))"
  using assms(1,2) efw_find_member [OF assms(3)]
  by (simp add: ZwoEfwDevice_call_def enum_call_def enum_name_def enum_value_def)

lemma eaf_call_unknown:
  assumes "name \<notin> set eaf_special_names" "code \<noteq> 0"
    and "code \<notin> set (map enum_value EAF_ERROR_CODE_members)"
  shows "ZwoEafDevice_call name (RInt code) = Inl (ValueError (RInt code))"
  using assms(1,2) find_value_none [OF assms(3)]
  by (simp add: ZwoEafDevice_call_def enum_call_def)

lemma efw_call_unknown:
  assumes "name \<notin> set efw_special_names" "code \<noteq> 0"
    and "code \<notin> set (map enum_value EFW_ERROR_CODE_members)"
  shows "ZwoEfwDevice_call name (RInt code) = Inl (ValueError (RInt code))"
  using assms(1,2) find_value_none [OF assms(3)]
  by (simp add: ZwoEfwDevice_call_def enum_call_def)

lemma zero_is_eaf_value: "0 \<in> set (map enum_value EAF_ERROR_CODE_members)"
  by (simp add: EAF_ERROR_CODE_members_def enum_value_def)

text \<open>The shape shared by the filter wheel's setters: call, drop the result, return \<open>True\<close>.\<close>

lemma efw_setter_contract:
  assumes "name \<notin> set efw_special_names"
  shows "wheel_bool_contract r
           (case ZwoEfwDevice_call name (restype_c_int r) of
              Inl e \<Rightarrow> Inl e
            | Inr result \<Rightarrow> Inr (PBool True))"
proof (cases "r = 0")
  case True
  then show ?thesis by (simp add: wheel_bool_contract_def efw_call_zero)
next
  case False
  then have "truthy (restype_c_int r)" by (simp add: truthy_restype)
  with assms have "isl (ZwoEfwDevice_call name (restype_c_int r))"
    by (simp add: ZwoEfwDevice_call_def split: sum.split)
  with False show ?thesis
    by (auto simp: wheel_bool_contract_def isl_def)
qed

text \<open>The shape shared by the focuser's setters: call, return \<open>not result\<close>.\<close>

lemma eaf_setter_contract:
  assumes "name \<notin> set eaf_special_names"
  shows "focuser_bool_contract r
           (case ZwoEafDevice_call name (restype_c_int r) of
              Inl e \<Rightarrow> Inl e
            | Inr result \<Rightarrow> Inr (PBool (\<not> truthy result)))"
proof (cases "r = 0")
  case True
  then show ?thesis
    using zero_is_eaf_value by (simp add: focuser_bool_contract_def eaf_call_zero)
next
  case False
  then have nz: "sint r \<noteq> 0" by (simp add: signed_eq_0_iff)
  show ?thesis
  proof (cases "sint r \<in> set (map enum_value EAF_ERROR_CODE_members)")
    case True
    then obtain m where "find (\<lambda>m. enum_value m = sint r) EAF_ERROR_CODE_members = Some m"
      using find_value_some by blast
    with assms nz have "ZwoEafDevice_call name (restype_c_int r) = Inl (ZwoFocuserError (enum_name m))"
      by (simp add: ZwoEafDevice_call_def enum_call_def restype_c_int_def)
    with False True show ?thesis
      by (simp add: focuser_bool_contract_def)
  next
    case notin: False
    from eaf_call_unknown [OF assms nz notin]
    have "ZwoEafDevice_call name (restype_c_int r) = Inl (ValueError (RInt (sint r)))"
      by (simp add: restype_c_int_def)
    with False notin show ?thesis
      by (simp add: focuser_bool_contract_def)
  qed
qed

section \<open>The boolean-valued operations, one by one\<close>

lemma efw_setter_names:
  "''EFWOpen'' \<notin> set efw_special_names" "''EFWClose'' \<notin> set efw_special_names"
  "''EFWSetPosition'' \<notin> set efw_special_names" "''EFWSetDirection'' \<notin> set efw_special_names"
  "''EFWCalibrate'' \<notin> set efw_special_names" "''EFWSetID'' \<notin> set efw_special_names"
  by (simp_all add: efw_special_names_def)

lemma eaf_setter_names:
  "''EAFOpen'' \<notin> set eaf_special_names" "''EAFMove'' \<notin> set eaf_special_names"
  "''EAFStop'' \<notin> set eaf_special_names" "''EAFResetPostion'' \<notin> set eaf_special_names"
  "''EAFSetBeep'' \<notin> set eaf_special_names" "''EAFSetMaxStep'' \<notin> set eaf_special_names"
  "''EAFSetReverse'' \<notin> set eaf_special_names" "''EAFSetBacklash'' \<notin> set eaf_special_names"
  "''EAFClose'' \<notin> set eaf_special_names" "''EAFSetID'' \<notin> set eaf_special_names"
  by (simp_all add: eaf_special_names_def)

lemma EFWOpen_contract: "wheel_bool_contract (native (c_int ids)) (EFWOpen native ids)"
  unfolding EFWOpen_def by (rule efw_setter_contract [OF efw_setter_names(1)])

lemma EFWClose_contract: "wheel_bool_contract (native (c_int ids)) (EFWClose native ids)"
  unfolding EFWClose_def by (rule efw_setter_contract [OF efw_setter_names(2)])

lemma EFWSetPosition_contract:
  "wheel_bool_contract (native (c_int ids) (c_int position)) (EFWSetPosition native ids position)"
  unfolding EFWSetPosition_def by (rule efw_setter_contract [OF efw_setter_names(3)])

lemma EFWSetDirection_contract:
  "wheel_bool_contract (native (c_int ids) (c_bool direction)) (EFWSetDirection native ids direction)"
  unfolding EFWSetDirection_def by (rule efw_setter_contract [OF efw_setter_names(4)])

lemma EFWCalibrate_contract: "wheel_bool_contract (native (c_int ids)) (EFWCalibrate native ids)"
  unfolding EFWCalibrate_def by (rule efw_setter_contract [OF efw_setter_names(5)])

lemma EFWSetID_contract:
  "wheel_bool_contract (native (c_int ids) efw_id) (EFWSetID native ids efw_id)"
  unfolding EFWSetID_def by (rule efw_setter_contract [OF efw_setter_names(6)])

lemma EAFOpen_contract: "focuser_bool_contract (native (c_int ids)) (EAFOpen native ids)"
  unfolding EAFOpen_def by (rule eaf_setter_contract [OF eaf_setter_names(1)])

lemma EAFMove_contract:
  "focuser_bool_contract (native (c_int ids) (c_int position)) (EAFMove native ids position)"
  unfolding EAFMove_def by (rule eaf_setter_contract [OF eaf_setter_names(2)])

lemma EAFStop_contract: "focuser_bool_contract (native (c_int ids)) (EAFStop native ids)"
  unfolding EAFStop_def by (rule eaf_setter_contract [OF eaf_setter_names(3)])

lemma EAFResetPostion_contract:
  "focuser_bool_contract (native (c_int ids) (c_int position)) (EAFResetPostion native ids position)"
  unfolding EAFResetPostion_def by (rule eaf_setter_contract [OF eaf_setter_names(4)])

lemma EAFSetBeep_contract:
  "focuser_bool_contract (native (c_int ids) (c_bool beep)) (EAFSetBeep native ids beep)"
  unfolding EAFSetBeep_def by (rule eaf_setter_contract [OF eaf_setter_names(5)])

lemma EAFSetMaxStep_contract:
  "focuser_bool_contract (native (c_int ids) (c_int position)) (EAFSetMaxStep native ids position)"
  unfolding EAFSetMaxStep_def by (rule eaf_setter_contract [OF eaf_setter_names(6)])

lemma EAFSetReverse_contract:
  "focuser_bool_contract (native (c_int ids) (c_bool direction)) (EAFSetReverse native ids direction)"
  unfolding EAFSetReverse_def by (rule eaf_setter_contract [OF eaf_setter_names(7)])

lemma EAFSetBacklash_contract:
  "focuser_bool_contract (native (c_int ids) (c_int backlash)) (EAFSetBacklash native ids backlash)"
  unfolding EAFSetBacklash_def by (rule eaf_setter_contract [OF eaf_setter_names(8)])

lemma EAFClose_contract: "focuser_bool_contract (native (c_int ids)) (EAFClose native ids)"
  unfolding EAFClose_def by (rule eaf_setter_contract [OF eaf_setter_names(9)])

lemma EAFSetID_contract:
  "focuser_bool_contract (native (c_int ids) eaf_id) (EAFSetID native ids eaf_id)"
  unfolding EAFSetID_def by (rule eaf_setter_contract [OF eaf_setter_names(10)])

section \<open>The operations with by-reference outputs, after a zero return\<close>

lemma EAFGetID_zero:
  assumes "native (c_int ids) 0 = (0, out)"
  shows "EAFGetID native ids = Inr (PInt (sint out))"
  using assms eaf_call_zero [of "''EAFGetID''"]
  by (simp add: EAFGetID_def restype_c_int_def)

lemma EAFGetPosition_zero:
  assumes "native (c_int ids) 0 = (0, out)"
  shows "EAFGetPosition native ids = Inr (PInt (sint out))"
  using assms eaf_call_zero [of "''EAFGetPosition''"]
  by (simp add: EAFGetPosition_def restype_c_int_def)

lemma EAFGetMaxStep_zero:
  assumes "native (c_int ids) 0 = (0, out)"
  shows "EAFGetMaxStep native ids = Inr (PInt (sint out))"
  using assms eaf_call_zero [of "''EAFGetMaxStep''"]
  by (simp add: EAFGetMaxStep_def restype_c_int_def)

lemma EAFStepRange_zero:
  assumes "native (c_int ids) 0 = (0, out)"
  shows "EAFStepRange native ids = Inr (PInt (sint out))"
  using assms eaf_call_zero [of "''EAFStepRange''"]
  by (simp add: EAFStepRange_def restype_c_int_def)

lemma EAFGetBacklash_zero:
  assumes "native (c_int ids) 0 = (0, out)"
  shows "EAFGetBacklash native ids = Inr (PInt (sint out))"
  using assms eaf_call_zero [of "''EAFGetBacklash''"]
  by (simp add: EAFGetBacklash_def restype_c_int_def)

lemma EFWGetID_zero:
  assumes "native (c_int ids) 0 = (0, out)"
  shows "EFWGetID native ids = Inr (PInt (sint out))"
  using assms efw_call_zero [of "''EFWGetID''"]
  by (simp add: EFWGetID_def restype_c_int_def)

lemma EFWGetPosition_zero:
  assumes "native (c_int ids) 0 = (0, out)"
  shows "EFWGetPosition native ids = Inr (PInt (sint out))"
  using assms efw_call_zero [of "''EFWGetPosition''"]
  by (simp add: EFWGetPosition_def restype_c_int_def)

lemma EFWGetHWErrorCode_zero:
  assumes "native (c_int ids) 0 = (0, out)"
  shows "EFWGetHWErrorCode native ids = Inr (PInt (sint out))"
  using assms efw_call_zero [of "''EFWGetHWErrorCode''"]
  by (simp add: EFWGetHWErrorCode_def restype_c_int_def)

lemma EAFGetBeep_zero:
  assumes "native (c_int ids) False = (0, out)"
  shows "EAFGetBeep native ids = Inr (PBool out)"
  using assms eaf_call_zero [of "''EAFGetBeep''"]
  by (simp add: EAFGetBeep_def restype_c_int_def)

lemma EAFGetReverse_zero:
  assumes "native (c_int ids) False = (0, out)"
  shows "EAFGetReverse native ids = Inr (PBool out)"
  using assms eaf_call_zero [of "''EAFGetReverse''"]
  by (simp add: EAFGetReverse_def restype_c_int_def)

lemma EFWGetDirection_zero:
  assumes "native (c_int ids) False = (0, out)"
  shows "EFWGetDirection native ids = Inr (PBool out)"
  using assms efw_call_zero [of "''EFWGetDirection''"]
  by (simp add: EFWGetDirection_def restype_c_int_def)

lemma EAFIsMoving_zero:
  assumes "native (c_int ids) False False = (0, moving, hand_control)"
  shows "EAFIsMoving native ids
     = Inr (PDict [(''moving'', PBool moving), (''hand_control'', PBool hand_control)])"
  using assms eaf_call_zero [of "''EAFIsMoving''"]
  by (simp add: EAFIsMoving_def restype_c_int_def)

lemma EAFGetTemp_zero:
  assumes "native (c_int ids) 0 = (0, temperature)"
  shows "EAFGetTemp native ids = Inr (PFloat temperature)"
  using assms eaf_call_zero [of "''EAFGetTemp''"]
  by (simp add: EAFGetTemp_def restype_c_int_def)

lemma EAFGetProperty_zero:
  assumes "native (c_int ids) EAF_INFO_new = (0, info)"
  shows "EAFGetProperty native ids = Inr (PEafInfo info)"
  using assms eaf_call_zero [of "''EAFGetProperty''"]
  by (simp add: EAFGetProperty_def restype_c_int_def)

lemma EFWGetProperty_zero:
  assumes "native (c_int ids) EFW_INFO_new = (0, info)"
  shows "EFWGetProperty native ids = Inr (PEfwInfo info)"
  using assms efw_call_zero [of "''EFWGetProperty''"]
  by (simp add: EFWGetProperty_def restype_c_int_def)

lemma EAFGetFirmwareVersion_zero:
  assumes "native (c_int ids) 0 0 0 = (0, major, minor, build)"
  shows "EAFGetFirmwareVersion native ids
     = Inr (PStr (str_int (uint major) @ ''.'' @ str_int (uint minor) @ ''.''
            @ str_int (uint build)))"
  using assms eaf_call_zero [of "''EAFGetFirmwareVersion''"]
  by (simp add: EAFGetFirmwareVersion_def restype_c_int_def)

lemma EFWGetFirmwareVersion_zero:
  assumes "native (c_int ids) 0 0 0 = (0, major, minor, build)"
  shows "EFWGetFirmwareVersion native ids
     = Inr (PTuple [PInt (uint major), PInt (uint minor), PInt (uint build)])"
  using assms efw_call_zero [of "''EFWGetFirmwareVersion''"]
  by (simp add: EFWGetFirmwareVersion_def restype_c_int_def)

lemma EAFGetSerialNumber_zero:
  assumes "native (c_int ids) EAF_ID_new = (0, serial)"
  shows "EAFGetSerialNumber native ids = Inr (PInt (from_bytes_big (EAF_ID_id serial)))"
  using assms eaf_call_zero [of "''EAFGetSerialNumber''"]
  by (simp add: EAFGetSerialNumber_def restype_c_int_def)

lemma EFWGetSerialNumber_zero:
  assumes "native (c_int ids) EFW_ID_new = (0, serial)"
  shows "EFWGetSerialNumber native ids = Inr (PEfwId serial)"
  using assms efw_call_zero [of "''EFWGetSerialNumber''"]
  by (simp add: EFWGetSerialNumber_def restype_c_int_def)

lemma wheel_contract_zero: "wheel_bool_contract 0 res \<Longrightarrow> res = Inr (PBool True)"
  by (simp add: wheel_bool_contract_def)

lemma focuser_contract_zero: "focuser_bool_contract 0 res \<Longrightarrow> res = Inr (PBool True)"
  by (simp add: focuser_bool_contract_def)

lemma EAFGetProductIDs_returns_tuple: "\<exists>vs. EAFGetProductIDs native = Inr (PTuple vs)"
  by (simp add: EAFGetProductIDs_def eaf_call_special eaf_special_names_def restype_c_int_def
      split: prod.split)

lemma EFWGetProductIDs_returns_tuple: "\<exists>vs. EFWGetProductIDs native = Inr (PTuple vs)"
  by (simp add: EFWGetProductIDs_def efw_call_special efw_special_names_def restype_c_int_def
      split: prod.split)

section \<open>Renderings and decodings\<close>

lemma digit_char_value: "n < 10 \<Longrightarrow> of_char (''0123456789'' ! n) - 48 = (n::nat)"
proof -
  assume "n < 10"
  then consider "n = 0" | "n = 1" | "n = 2" | "n = 3" | "n = 4" | "n = 5" | "n = 6" | "n = 7"
    | "n = 8" | "n = 9" by atomize_elim arith
  then show ?thesis by cases simp_all
qed

lemma str_nat_decimal: "decimal_value (str_nat n) = n"
proof (induction n rule: str_nat.induct)
  case (1 n)
  show ?case
  proof (cases "n < 10")
    case True
    then show ?thesis
      by (simp add: str_nat.simps [of n] decimal_value_def digit_char_value)
  next
    case False
    with "1" have "decimal_value (str_nat (n div 10)) = n div 10" by simp
    with False show ?thesis
      by (simp add: str_nat.simps [of n] decimal_value_def digit_char_value)
  qed
qed

lemma big_endian_value_snoc:
  "big_endian_value (bs @ [b]) = big_endian_value bs * 256 + uint b"
proof -
  have "(\<Sum>i<length bs. uint ((bs @ [b]) ! i) * 256 ^ (length (bs @ [b]) - Suc i))
      = (\<Sum>i<length bs. (uint (bs ! i) * 256 ^ (length bs - Suc i)) * 256)"
  proof (rule sum.cong)
    fix i assume "i \<in> {..<length bs}"
    then have i: "i < length bs" by simp
    then have "length (bs @ [b]) - Suc i = Suc (length bs - Suc i)" by simp
    with i show "uint ((bs @ [b]) ! i) * 256 ^ (length (bs @ [b]) - Suc i)
        = (uint (bs ! i) * 256 ^ (length bs - Suc i)) * 256"
      by (simp add: nth_append)
  qed simp
  then show ?thesis
    by (simp add: big_endian_value_def sum_distrib_right)
qed

lemma from_bytes_big_is_big_endian: "from_bytes_big bs = big_endian_value bs"
proof (induction bs rule: rev_induct)
  case Nil
  show ?case by (simp add: from_bytes_big_def big_endian_value_def)
next
  case (snoc b bs)
  then show ?case by (simp add: from_bytes_big_def big_endian_value_snoc)
qed

section \<open>Product-ID queries\<close>

lemma py_slice_upto_in_range:
  "0 \<le> n \<Longrightarrow> n \<le> int (length xs) \<Longrightarrow>
   py_slice_upto xs n = take (nat n) xs \<and> length (py_slice_upto xs n) = nat n"
  by (simp add: py_slice_upto_def)

lemma take_3_of_long: "3 \<le> length xs \<Longrightarrow> take 3 xs = [xs ! 0, xs ! 1, xs ! 2]"
  by (cases xs; cases "tl xs"; cases "tl (tl xs)") (auto simp: numeral_3_eq_3)

lemma EAFGetProductIDs_slice:
  "native (replicate EAF_ID_MAX 0) = (ret, buf) \<Longrightarrow>
   EAFGetProductIDs native = Inr (PTuple (map (\<lambda>w. PInt (sint w)) (py_slice_upto buf (sint ret))))"
  by (simp add: EAFGetProductIDs_def eaf_call_special eaf_special_names_def restype_c_int_def)

lemma EFWGetProductIDs_slice:
  "native (replicate EFW_ID_MAX 0) = (ret, buf) \<Longrightarrow>
   EFWGetProductIDs native = Inr (PTuple (map (\<lambda>w. PInt (sint w)) (py_slice_upto buf (sint ret))))"
  by (simp add: EFWGetProductIDs_def efw_call_special efw_special_names_def restype_c_int_def)

section \<open>Library resolution\<close>

lemma eaf_arch_supported:
  "eaf_arch ''posix'' ''32bit'' = Inr (''linux32'', ''libEAFFocuser.so'')"
  "eaf_arch ''posix'' ''64bit'' = Inr (''linux64'', ''libEAFFocuser.so'')"
  "eaf_arch ''nt'' ''32bit'' = Inr (''win32'', ''EAF_focuser.dll'')"
  "eaf_arch ''nt'' ''64bit'' = Inr (''win64'', ''EAF_focuser.dll'')"
  by (simp_all add: eaf_arch_def eaf_arch_table_def dict_getitem_def)

lemma efw_arch_supported:
  "efw_arch ''posix'' ''32bit'' = Inr (''linux32'', ''libEFWFilter.so'')"
  "efw_arch ''posix'' ''64bit'' = Inr (''linux64'', ''libEFWFilter.so'')"
  "efw_arch ''nt'' ''32bit'' = Inr (''win32'', ''EFW_filter.dll'')"
  "efw_arch ''nt'' ''64bit'' = Inr (''win64'', ''EFW_filter.dll'')"
  by (simp_all add: efw_arch_def efw_arch_table_def dict_getitem_def)

lemma eaf_arch_unsupported:
  assumes "(os_name, bits) \<notin> {(''posix'', ''32bit''), (''posix'', ''64bit''),
                                 (''nt'', ''32bit''), (''nt'', ''64bit'')}"
  shows "eaf_arch os_name bits
         = Inl (KeyError (if os_name = ''posix'' \<or> os_name = ''nt'' then bits else os_name))"
  using assms by (simp add: eaf_arch_def eaf_arch_table_def dict_getitem_def)

lemma efw_arch_unsupported:
  assumes "(os_name, bits) \<notin> {(''posix'', ''32bit''), (''posix'', ''64bit''),
                                 (''nt'', ''32bit''), (''nt'', ''64bit'')}"
  shows "efw_arch os_name bits
         = Inl (KeyError (if os_name = ''posix'' \<or> os_name = ''nt'' then bits else os_name))"
  using assms by (simp add: efw_arch_def efw_arch_table_def dict_getitem_def)

section \<open>Every guarded operation after a nonzero return\<close>

lemma eaf_guarded_names:
  "''EAFGetID'' \<notin> set eaf_special_names" "''EAFGetPosition'' \<notin> set eaf_special_names"
  "''EAFGetMaxStep'' \<notin> set eaf_special_names" "''EAFStepRange'' \<notin> set eaf_special_names"
  "''EAFGetBacklash'' \<notin> set eaf_special_names" "''EAFGetBeep'' \<notin> set eaf_special_names"
  "''EAFGetReverse'' \<notin> set eaf_special_names" "''EAFIsMoving'' \<notin> set eaf_special_names"
  "''EAFGetTemp'' \<notin> set eaf_special_names" "''EAFGetProperty'' \<notin> set eaf_special_names"
  "''EAFGetFirmwareVersion'' \<notin> set eaf_special_names" "''EAFGetSerialNumber'' \<notin> set eaf_special_names"
  "''EAFOpen'' \<notin> set eaf_special_names" "''EAFStop'' \<notin> set eaf_special_names"
  "''EAFClose'' \<notin> set eaf_special_names" "''EAFMove'' \<notin> set eaf_special_names"
  "''EAFResetPostion'' \<notin> set eaf_special_names" "''EAFSetMaxStep'' \<notin> set eaf_special_names"
  "''EAFSetBacklash'' \<notin> set eaf_special_names" "''EAFSetBeep'' \<notin> set eaf_special_names"
  "''EAFSetReverse'' \<notin> set eaf_special_names" "''EAFSetID'' \<notin> set eaf_special_names"
  by (simp_all add: eaf_special_names_def)

lemma efw_guarded_names:
  "''EFWGetID'' \<notin> set efw_special_names" "''EFWGetPosition'' \<notin> set efw_special_names"
  "''EFWGetHWErrorCode'' \<notin> set efw_special_names" "''EFWGetDirection'' \<notin> set efw_special_names"
  "''EFWGetProperty'' \<notin> set efw_special_names" "''EFWGetFirmwareVersion'' \<notin> set efw_special_names"
  "''EFWGetSerialNumber'' \<notin> set efw_special_names" "''EFWOpen'' \<notin> set efw_special_names"
  "''EFWClose'' \<notin> set efw_special_names" "''EFWCalibrate'' \<notin> set efw_special_names"
  "''EFWSetPosition'' \<notin> set efw_special_names" "''EFWSetDirection'' \<notin> set efw_special_names"
  "''EFWSetID'' \<notin> set efw_special_names"
  by (simp_all add: efw_special_names_def)

text \<open>
  The shape every guarded client method has: the mapper first, and a value only where
  the mapper returned. \<open>f\<close> stands for whatever the method builds after the call.
\<close>

lemma eaf_known_general:
  assumes "name \<notin> set eaf_special_names"
  shows "eaf_known_code_contract r
           (case ZwoEafDevice_call name (restype_c_int r) of
              Inl e \<Rightarrow> Inl e
            | Inr result \<Rightarrow> Inr (f result))"
  unfolding eaf_known_code_contract_def
proof (intro ballI impI)
  fix m assume m: "m \<in> set EAF_ERROR_CODE_members" and r: "r \<noteq> 0 \<and> sint r = enum_value m"
  obtain e nm code where mm: "m = (e, nm, code)" by (cases m)
  from r have "r \<noteq> 0" by simp
  then have "sint r \<noteq> 0" by (simp add: signed_eq_0_iff)
  with r mm have code: "code = sint r" "code \<noteq> 0"
    by (simp_all add: enum_value_def)
  from eaf_call_known [OF assms code(2)] m mm
  have "ZwoEafDevice_call name (RInt code) = Inl (ZwoFocuserError nm)" by simp
  with code mm show "(case ZwoEafDevice_call name (restype_c_int r) of
      Inl e \<Rightarrow> Inl e | Inr result \<Rightarrow> Inr (f result)) = Inl (ZwoFocuserError (enum_name m))"
    by (simp add: restype_c_int_def enum_name_def)
qed

lemma efw_known_general:
  assumes "name \<notin> set efw_special_names"
  shows "efw_known_code_contract name r
           (case ZwoEfwDevice_call name (restype_c_int r) of
              Inl e \<Rightarrow> Inl e
            | Inr result \<Rightarrow> Inr (f result))"
  unfolding efw_known_code_contract_def
proof (intro ballI impI)
  fix m assume m: "m \<in> set EFW_ERROR_CODE_members" and r: "r \<noteq> 0 \<and> sint r = enum_value m"
  obtain e nm code where mm: "m = (e, nm, code)" by (cases m)
  from r have "r \<noteq> 0" by simp
  then have "sint r \<noteq> 0" by (simp add: signed_eq_0_iff)
  with r mm have code: "code = sint r" "code \<noteq> 0"
    by (simp_all add: enum_value_def)
  from efw_call_known [OF assms code(2)] m mm
  have "ZwoEfwDevice_call name (RInt code)
      = Inl (ZwoFilterWheelError (name @ '' error '' @ str_int code @ '' ('' @ nm @ '')''))"
    by simp
  with code mm show "(case ZwoEfwDevice_call name (restype_c_int r) of
      Inl e \<Rightarrow> Inl e | Inr result \<Rightarrow> Inr (f result))
      = Inl (ZwoFilterWheelError
               (name @ '' error '' @ str_int (enum_value m) @ '' ('' @ enum_name m @ '')''))"
    by (simp add: restype_c_int_def enum_name_def enum_value_def)
qed

lemma zero_is_efw_value: "0 \<in> set (map enum_value EFW_ERROR_CODE_members)"
  by (simp add: EFW_ERROR_CODE_members_def enum_value_def)

lemma eaf_unknown_general:
  assumes "name \<notin> set eaf_special_names"
  shows "eaf_unknown_code_contract r
           (case ZwoEafDevice_call name (restype_c_int r) of
              Inl e \<Rightarrow> Inl e
            | Inr result \<Rightarrow> Inr (f result))"
  unfolding eaf_unknown_code_contract_def
proof
  assume u: "sint r \<notin> set (map enum_value EAF_ERROR_CODE_members)"
  with zero_is_eaf_value have "sint r \<noteq> 0" by metis
  from eaf_call_unknown [OF assms this u]
  show "(case ZwoEafDevice_call name (restype_c_int r) of
      Inl e \<Rightarrow> Inl e | Inr result \<Rightarrow> Inr (f result)) = Inl (ValueError (RInt (sint r)))"
    by (simp add: restype_c_int_def)
qed

lemma efw_unknown_general:
  assumes "name \<notin> set efw_special_names"
  shows "efw_unknown_code_contract r
           (case ZwoEfwDevice_call name (restype_c_int r) of
              Inl e \<Rightarrow> Inl e
            | Inr result \<Rightarrow> Inr (f result))"
  unfolding efw_unknown_code_contract_def
proof
  assume u: "sint r \<notin> set (map enum_value EFW_ERROR_CODE_members)"
  with zero_is_efw_value have "sint r \<noteq> 0" by metis
  from efw_call_unknown [OF assms this u]
  show "(case ZwoEfwDevice_call name (restype_c_int r) of
      Inl e \<Rightarrow> Inl e | Inr result \<Rightarrow> Inr (f result)) = Inl (ValueError (RInt (sint r)))"
    by (simp add: restype_c_int_def)
qed

lemma EAFGetID_known:
  "eaf_known_code_contract (fst (native (c_int ids) 0))
     (EAFGetID native ids)"
  by (simp add: EAFGetID_def case_prod_beta eaf_known_general [OF eaf_guarded_names(1)])

lemma EAFGetID_unknown:
  "eaf_unknown_code_contract (fst (native (c_int ids) 0))
     (EAFGetID native ids)"
  by (simp add: EAFGetID_def case_prod_beta eaf_unknown_general [OF eaf_guarded_names(1)])

lemma EAFGetPosition_known:
  "eaf_known_code_contract (fst (native (c_int ids) 0))
     (EAFGetPosition native ids)"
  by (simp add: EAFGetPosition_def case_prod_beta eaf_known_general [OF eaf_guarded_names(2)])

lemma EAFGetPosition_unknown:
  "eaf_unknown_code_contract (fst (native (c_int ids) 0))
     (EAFGetPosition native ids)"
  by (simp add: EAFGetPosition_def case_prod_beta eaf_unknown_general [OF eaf_guarded_names(2)])

lemma EAFGetMaxStep_known:
  "eaf_known_code_contract (fst (native (c_int ids) 0))
     (EAFGetMaxStep native ids)"
  by (simp add: EAFGetMaxStep_def case_prod_beta eaf_known_general [OF eaf_guarded_names(3)])

lemma EAFGetMaxStep_unknown:
  "eaf_unknown_code_contract (fst (native (c_int ids) 0))
     (EAFGetMaxStep native ids)"
  by (simp add: EAFGetMaxStep_def case_prod_beta eaf_unknown_general [OF eaf_guarded_names(3)])

lemma EAFStepRange_known:
  "eaf_known_code_contract (fst (native (c_int ids) 0))
     (EAFStepRange native ids)"
  by (simp add: EAFStepRange_def case_prod_beta eaf_known_general [OF eaf_guarded_names(4)])

lemma EAFStepRange_unknown:
  "eaf_unknown_code_contract (fst (native (c_int ids) 0))
     (EAFStepRange native ids)"
  by (simp add: EAFStepRange_def case_prod_beta eaf_unknown_general [OF eaf_guarded_names(4)])

lemma EAFGetBacklash_known:
  "eaf_known_code_contract (fst (native (c_int ids) 0))
     (EAFGetBacklash native ids)"
  by (simp add: EAFGetBacklash_def case_prod_beta eaf_known_general [OF eaf_guarded_names(5)])

lemma EAFGetBacklash_unknown:
  "eaf_unknown_code_contract (fst (native (c_int ids) 0))
     (EAFGetBacklash native ids)"
  by (simp add: EAFGetBacklash_def case_prod_beta eaf_unknown_general [OF eaf_guarded_names(5)])

lemma EAFGetBeep_known:
  "eaf_known_code_contract (fst (native (c_int ids) False))
     (EAFGetBeep native ids)"
  by (simp add: EAFGetBeep_def case_prod_beta eaf_known_general [OF eaf_guarded_names(6)])

lemma EAFGetBeep_unknown:
  "eaf_unknown_code_contract (fst (native (c_int ids) False))
     (EAFGetBeep native ids)"
  by (simp add: EAFGetBeep_def case_prod_beta eaf_unknown_general [OF eaf_guarded_names(6)])

lemma EAFGetReverse_known:
  "eaf_known_code_contract (fst (native (c_int ids) False))
     (EAFGetReverse native ids)"
  by (simp add: EAFGetReverse_def case_prod_beta eaf_known_general [OF eaf_guarded_names(7)])

lemma EAFGetReverse_unknown:
  "eaf_unknown_code_contract (fst (native (c_int ids) False))
     (EAFGetReverse native ids)"
  by (simp add: EAFGetReverse_def case_prod_beta eaf_unknown_general [OF eaf_guarded_names(7)])

lemma EAFIsMoving_known:
  "eaf_known_code_contract (fst (native (c_int ids) False False))
     (EAFIsMoving native ids)"
  by (simp add: EAFIsMoving_def case_prod_beta eaf_known_general [OF eaf_guarded_names(8)])

lemma EAFIsMoving_unknown:
  "eaf_unknown_code_contract (fst (native (c_int ids) False False))
     (EAFIsMoving native ids)"
  by (simp add: EAFIsMoving_def case_prod_beta eaf_unknown_general [OF eaf_guarded_names(8)])

lemma EAFGetTemp_known:
  "eaf_known_code_contract (fst (native (c_int ids) 0))
     (EAFGetTemp native ids)"
  by (simp add: EAFGetTemp_def case_prod_beta eaf_known_general [OF eaf_guarded_names(9)])

lemma EAFGetTemp_unknown:
  "eaf_unknown_code_contract (fst (native (c_int ids) 0))
     (EAFGetTemp native ids)"
  by (simp add: EAFGetTemp_def case_prod_beta eaf_unknown_general [OF eaf_guarded_names(9)])

lemma EAFGetProperty_known:
  "eaf_known_code_contract (fst (native (c_int ids) EAF_INFO_new))
     (EAFGetProperty native ids)"
  by (simp add: EAFGetProperty_def case_prod_beta eaf_known_general [OF eaf_guarded_names(10)])

lemma EAFGetProperty_unknown:
  "eaf_unknown_code_contract (fst (native (c_int ids) EAF_INFO_new))
     (EAFGetProperty native ids)"
  by (simp add: EAFGetProperty_def case_prod_beta eaf_unknown_general [OF eaf_guarded_names(10)])

lemma EAFGetFirmwareVersion_known:
  "eaf_known_code_contract (fst (native (c_int ids) 0 0 0))
     (EAFGetFirmwareVersion native ids)"
  by (simp add: EAFGetFirmwareVersion_def case_prod_beta eaf_known_general [OF eaf_guarded_names(11)])

lemma EAFGetFirmwareVersion_unknown:
  "eaf_unknown_code_contract (fst (native (c_int ids) 0 0 0))
     (EAFGetFirmwareVersion native ids)"
  by (simp add: EAFGetFirmwareVersion_def case_prod_beta eaf_unknown_general [OF eaf_guarded_names(11)])

lemma EAFGetSerialNumber_known:
  "eaf_known_code_contract (fst (native (c_int ids) EAF_ID_new))
     (EAFGetSerialNumber native ids)"
  by (simp add: EAFGetSerialNumber_def case_prod_beta eaf_known_general [OF eaf_guarded_names(12)])

lemma EAFGetSerialNumber_unknown:
  "eaf_unknown_code_contract (fst (native (c_int ids) EAF_ID_new))
     (EAFGetSerialNumber native ids)"
  by (simp add: EAFGetSerialNumber_def case_prod_beta eaf_unknown_general [OF eaf_guarded_names(12)])

lemma EAFOpen_known:
  "eaf_known_code_contract (native (c_int ids))
     (EAFOpen native ids)"
  by (simp add: EAFOpen_def case_prod_beta eaf_known_general [OF eaf_guarded_names(13)])

lemma EAFOpen_unknown:
  "eaf_unknown_code_contract (native (c_int ids))
     (EAFOpen native ids)"
  by (simp add: EAFOpen_def case_prod_beta eaf_unknown_general [OF eaf_guarded_names(13)])

lemma EAFStop_known:
  "eaf_known_code_contract (native (c_int ids))
     (EAFStop native ids)"
  by (simp add: EAFStop_def case_prod_beta eaf_known_general [OF eaf_guarded_names(14)])

lemma EAFStop_unknown:
  "eaf_unknown_code_contract (native (c_int ids))
     (EAFStop native ids)"
  by (simp add: EAFStop_def case_prod_beta eaf_unknown_general [OF eaf_guarded_names(14)])

lemma EAFClose_known:
  "eaf_known_code_contract (native (c_int ids))
     (EAFClose native ids)"
  by (simp add: EAFClose_def case_prod_beta eaf_known_general [OF eaf_guarded_names(15)])

lemma EAFClose_unknown:
  "eaf_unknown_code_contract (native (c_int ids))
     (EAFClose native ids)"
  by (simp add: EAFClose_def case_prod_beta eaf_unknown_general [OF eaf_guarded_names(15)])

lemma EAFMove_known:
  "eaf_known_code_contract (native (c_int ids) (c_int v))
     (EAFMove native ids v)"
  by (simp add: EAFMove_def case_prod_beta eaf_known_general [OF eaf_guarded_names(16)])

lemma EAFMove_unknown:
  "eaf_unknown_code_contract (native (c_int ids) (c_int v))
     (EAFMove native ids v)"
  by (simp add: EAFMove_def case_prod_beta eaf_unknown_general [OF eaf_guarded_names(16)])

lemma EAFResetPostion_known:
  "eaf_known_code_contract (native (c_int ids) (c_int v))
     (EAFResetPostion native ids v)"
  by (simp add: EAFResetPostion_def case_prod_beta eaf_known_general [OF eaf_guarded_names(17)])

lemma EAFResetPostion_unknown:
  "eaf_unknown_code_contract (native (c_int ids) (c_int v))
     (EAFResetPostion native ids v)"
  by (simp add: EAFResetPostion_def case_prod_beta eaf_unknown_general [OF eaf_guarded_names(17)])

lemma EAFSetMaxStep_known:
  "eaf_known_code_contract (native (c_int ids) (c_int v))
     (EAFSetMaxStep native ids v)"
  by (simp add: EAFSetMaxStep_def case_prod_beta eaf_known_general [OF eaf_guarded_names(18)])

lemma EAFSetMaxStep_unknown:
  "eaf_unknown_code_contract (native (c_int ids) (c_int v))
     (EAFSetMaxStep native ids v)"
  by (simp add: EAFSetMaxStep_def case_prod_beta eaf_unknown_general [OF eaf_guarded_names(18)])

lemma EAFSetBacklash_known:
  "eaf_known_code_contract (native (c_int ids) (c_int v))
     (EAFSetBacklash native ids v)"
  by (simp add: EAFSetBacklash_def case_prod_beta eaf_known_general [OF eaf_guarded_names(19)])

lemma EAFSetBacklash_unknown:
  "eaf_unknown_code_contract (native (c_int ids) (c_int v))
     (EAFSetBacklash native ids v)"
  by (simp add: EAFSetBacklash_def case_prod_beta eaf_unknown_general [OF eaf_guarded_names(19)])

lemma EAFSetBeep_known:
  "eaf_known_code_contract (native (c_int ids) (c_bool flag))
     (EAFSetBeep native ids flag)"
  by (simp add: EAFSetBeep_def case_prod_beta eaf_known_general [OF eaf_guarded_names(20)])

lemma EAFSetBeep_unknown:
  "eaf_unknown_code_contract (native (c_int ids) (c_bool flag))
     (EAFSetBeep native ids flag)"
  by (simp add: EAFSetBeep_def case_prod_beta eaf_unknown_general [OF eaf_guarded_names(20)])

lemma EAFSetReverse_known:
  "eaf_known_code_contract (native (c_int ids) (c_bool flag))
     (EAFSetReverse native ids flag)"
  by (simp add: EAFSetReverse_def case_prod_beta eaf_known_general [OF eaf_guarded_names(21)])

lemma EAFSetReverse_unknown:
  "eaf_unknown_code_contract (native (c_int ids) (c_bool flag))
     (EAFSetReverse native ids flag)"
  by (simp add: EAFSetReverse_def case_prod_beta eaf_unknown_general [OF eaf_guarded_names(21)])

lemma EAFSetID_known:
  "eaf_known_code_contract (native (c_int ids) eaf_id)
     (EAFSetID native ids eaf_id)"
  by (simp add: EAFSetID_def case_prod_beta eaf_known_general [OF eaf_guarded_names(22)])

lemma EAFSetID_unknown:
  "eaf_unknown_code_contract (native (c_int ids) eaf_id)
     (EAFSetID native ids eaf_id)"
  by (simp add: EAFSetID_def case_prod_beta eaf_unknown_general [OF eaf_guarded_names(22)])

lemma EFWGetID_known:
  "efw_known_code_contract ''EFWGetID'' (fst (native (c_int ids) 0))
     (EFWGetID native ids)"
  by (simp add: EFWGetID_def case_prod_beta efw_known_general [OF efw_guarded_names(1)])

lemma EFWGetID_unknown:
  "efw_unknown_code_contract (fst (native (c_int ids) 0))
     (EFWGetID native ids)"
  by (simp add: EFWGetID_def case_prod_beta efw_unknown_general [OF efw_guarded_names(1)])

lemma EFWGetPosition_known:
  "efw_known_code_contract ''EFWGetPosition'' (fst (native (c_int ids) 0))
     (EFWGetPosition native ids)"
  by (simp add: EFWGetPosition_def case_prod_beta efw_known_general [OF efw_guarded_names(2)])

lemma EFWGetPosition_unknown:
  "efw_unknown_code_contract (fst (native (c_int ids) 0))
     (EFWGetPosition native ids)"
  by (simp add: EFWGetPosition_def case_prod_beta efw_unknown_general [OF efw_guarded_names(2)])

lemma EFWGetHWErrorCode_known:
  "efw_known_code_contract ''EFWGetHWErrorCode'' (fst (native (c_int ids) 0))
     (EFWGetHWErrorCode native ids)"
  by (simp add: EFWGetHWErrorCode_def case_prod_beta efw_known_general [OF efw_guarded_names(3)])

lemma EFWGetHWErrorCode_unknown:
  "efw_unknown_code_contract (fst (native (c_int ids) 0))
     (EFWGetHWErrorCode native ids)"
  by (simp add: EFWGetHWErrorCode_def case_prod_beta efw_unknown_general [OF efw_guarded_names(3)])

lemma EFWGetDirection_known:
  "efw_known_code_contract ''EFWGetDirection'' (fst (native (c_int ids) False))
     (EFWGetDirection native ids)"
  by (simp add: EFWGetDirection_def case_prod_beta efw_known_general [OF efw_guarded_names(4)])

lemma EFWGetDirection_unknown:
  "efw_unknown_code_contract (fst (native (c_int ids) False))
     (EFWGetDirection native ids)"
  by (simp add: EFWGetDirection_def case_prod_beta efw_unknown_general [OF efw_guarded_names(4)])

lemma EFWGetProperty_known:
  "efw_known_code_contract ''EFWGetProperty'' (fst (native (c_int ids) EFW_INFO_new))
     (EFWGetProperty native ids)"
  by (simp add: EFWGetProperty_def case_prod_beta efw_known_general [OF efw_guarded_names(5)])

lemma EFWGetProperty_unknown:
  "efw_unknown_code_contract (fst (native (c_int ids) EFW_INFO_new))
     (EFWGetProperty native ids)"
  by (simp add: EFWGetProperty_def case_prod_beta efw_unknown_general [OF efw_guarded_names(5)])

lemma EFWGetFirmwareVersion_known:
  "efw_known_code_contract ''EFWGetFirmwareVersion'' (fst (native (c_int ids) 0 0 0))
     (EFWGetFirmwareVersion native ids)"
  by (simp add: EFWGetFirmwareVersion_def case_prod_beta efw_known_general [OF efw_guarded_names(6)])

lemma EFWGetFirmwareVersion_unknown:
  "efw_unknown_code_contract (fst (native (c_int ids) 0 0 0))
     (EFWGetFirmwareVersion native ids)"
  by (simp add: EFWGetFirmwareVersion_def case_prod_beta efw_unknown_general [OF efw_guarded_names(6)])

lemma EFWGetSerialNumber_known:
  "efw_known_code_contract ''EFWGetSerialNumber'' (fst (native (c_int ids) EFW_ID_new))
     (EFWGetSerialNumber native ids)"
  by (simp add: EFWGetSerialNumber_def case_prod_beta efw_known_general [OF efw_guarded_names(7)])

lemma EFWGetSerialNumber_unknown:
  "efw_unknown_code_contract (fst (native (c_int ids) EFW_ID_new))
     (EFWGetSerialNumber native ids)"
  by (simp add: EFWGetSerialNumber_def case_prod_beta efw_unknown_general [OF efw_guarded_names(7)])

lemma EFWOpen_known:
  "efw_known_code_contract ''EFWOpen'' (native (c_int ids))
     (EFWOpen native ids)"
  by (simp add: EFWOpen_def case_prod_beta efw_known_general [OF efw_guarded_names(8)])

lemma EFWOpen_unknown:
  "efw_unknown_code_contract (native (c_int ids))
     (EFWOpen native ids)"
  by (simp add: EFWOpen_def case_prod_beta efw_unknown_general [OF efw_guarded_names(8)])

lemma EFWClose_known:
  "efw_known_code_contract ''EFWClose'' (native (c_int ids))
     (EFWClose native ids)"
  by (simp add: EFWClose_def case_prod_beta efw_known_general [OF efw_guarded_names(9)])

lemma EFWClose_unknown:
  "efw_unknown_code_contract (native (c_int ids))
     (EFWClose native ids)"
  by (simp add: EFWClose_def case_prod_beta efw_unknown_general [OF efw_guarded_names(9)])

lemma EFWCalibrate_known:
  "efw_known_code_contract ''EFWCalibrate'' (native (c_int ids))
     (EFWCalibrate native ids)"
  by (simp add: EFWCalibrate_def case_prod_beta efw_known_general [OF efw_guarded_names(10)])

lemma EFWCalibrate_unknown:
  "efw_unknown_code_contract (native (c_int ids))
     (EFWCalibrate native ids)"
  by (simp add: EFWCalibrate_def case_prod_beta efw_unknown_general [OF efw_guarded_names(10)])

lemma EFWSetPosition_known:
  "efw_known_code_contract ''EFWSetPosition'' (native (c_int ids) (c_int v))
     (EFWSetPosition native ids v)"
  by (simp add: EFWSetPosition_def case_prod_beta efw_known_general [OF efw_guarded_names(11)])

lemma EFWSetPosition_unknown:
  "efw_unknown_code_contract (native (c_int ids) (c_int v))
     (EFWSetPosition native ids v)"
  by (simp add: EFWSetPosition_def case_prod_beta efw_unknown_general [OF efw_guarded_names(11)])

lemma EFWSetDirection_known:
  "efw_known_code_contract ''EFWSetDirection'' (native (c_int ids) (c_bool flag))
     (EFWSetDirection native ids flag)"
  by (simp add: EFWSetDirection_def case_prod_beta efw_known_general [OF efw_guarded_names(12)])

lemma EFWSetDirection_unknown:
  "efw_unknown_code_contract (native (c_int ids) (c_bool flag))
     (EFWSetDirection native ids flag)"
  by (simp add: EFWSetDirection_def case_prod_beta efw_unknown_general [OF efw_guarded_names(12)])

lemma EFWSetID_known:
  "efw_known_code_contract ''EFWSetID'' (native (c_int ids) efw_id)
     (EFWSetID native ids efw_id)"
  by (simp add: EFWSetID_def case_prod_beta efw_known_general [OF efw_guarded_names(13)])

lemma EFWSetID_unknown:
  "efw_unknown_code_contract (native (c_int ids) efw_id)
     (EFWSetID native ids efw_id)"
  by (simp add: EFWSetID_def case_prod_beta efw_unknown_general [OF efw_guarded_names(13)])

section \<open>SDK version queries\<close>

lemma EFWGetSDKVersion_string: "EFWGetSDKVersion (Some bs) = Inr (PBytes bs)"
  by (simp add: EFWGetSDKVersion_def efw_call_special efw_special_names_def
      restype_c_char_p_def py_bytes_def)

lemma EAFGetSDKVersion_string:
  "list_all (\<lambda>b. b < 128) bs \<Longrightarrow>
   EAFGetSDKVersion (Some bs) = Inr (PStr (map (\<lambda>b. char_of (uint b)) bs))"
  by (simp add: EAFGetSDKVersion_def eaf_call_special eaf_special_names_def
      restype_c_char_p_def py_bytes_def decode_ascii_def)

lemma ascii_codes: "map of_char (map (\<lambda>b. char_of (uint b)) bs) = map uint (bs :: c_ubyte list)"
proof -
  have "of_char (char_of (uint b)) = uint b" for b :: c_ubyte
  proof -
    have "uint b < 256" using uint_bounded [of b] by simp
    moreover have "0 \<le> uint b" by simp
    ultimately show ?thesis by simp
  qed
  then show ?thesis by simp
qed

section \<open>Claims\<close>

text \<open>
  C1 (as stated: every filter-wheel mutating operation returns \<open>True\<close> for every native
  return code). The statement fails: \<open>EFWSetPosition\<close> goes through the error mapper like
  every entry point outside the allow-list, so with a native return code of 1 it raises
  \<open>ZwoFilterWheelError\<close> and returns nothing.
\<close>

theorem efw_set_position_raises_on_nonzero:
  "EFWSetPosition (\<lambda>ids position. 1) 0 0
     = Inl (ZwoFilterWheelError ''EFWSetPosition error 1 (EFW_ERROR_INVALID_INDEX)'')
   \<and> EFWSetPosition (\<lambda>ids position. 1) 0 0 \<noteq> Inr (PBool True)"
  by (simp add: EFWSetPosition_def ZwoEfwDevice_call_def restype_c_int_def efw_special_names_def
      enum_call_def EFW_ERROR_CODE_members_def enum_value_def enum_name_def str_int_def
      str_nat.simps)

text \<open>
  C1 (amended): \<open>EFWOpen\<close>, \<open>EFWClose\<close>, \<open>EFWSetPosition\<close>, \<open>EFWSetDirection\<close>, \<open>EFWCalibrate\<close>
  and \<open>EFWSetID\<close> return \<open>True\<close> exactly when the native call returned 0, and raise exactly
  when it returned a nonzero code; the focuser's \<open>EAFMove\<close> likewise raises exactly when its
  native call returned a nonzero code.
\<close>

theorem efw_setters_true_iff_native_zero:
  fixes n1 :: "c_int \<Rightarrow> c_int" and n2 :: "c_int \<Rightarrow> c_int \<Rightarrow> c_int"
    and nb :: "c_int \<Rightarrow> c_bool \<Rightarrow> c_int" and ni :: "c_int \<Rightarrow> EFW_ID \<Rightarrow> c_int"
  shows "wheel_bool_contract (n1 (c_int ids)) (EFWOpen n1 ids)
       \<and> wheel_bool_contract (n1 (c_int ids)) (EFWClose n1 ids)
       \<and> wheel_bool_contract (n2 (c_int ids) (c_int position)) (EFWSetPosition n2 ids position)
       \<and> wheel_bool_contract (nb (c_int ids) (c_bool direction)) (EFWSetDirection nb ids direction)
       \<and> wheel_bool_contract (n1 (c_int ids)) (EFWCalibrate n1 ids)
       \<and> wheel_bool_contract (ni (c_int ids) efw_id) (EFWSetID ni ids efw_id)
       \<and> isl (EAFMove n2 ids position) = (n2 (c_int ids) (c_int position) \<noteq> 0)"
proof -
  have "isl (EAFMove n2 ids position) = (n2 (c_int ids) (c_int position) \<noteq> 0)"
    using EAFMove_contract [of n2 ids position] by (simp add: focuser_bool_contract_def)
  then show ?thesis
    by (intro conjI)
      (assumption | rule EFWOpen_contract EFWClose_contract EFWSetPosition_contract
        EFWSetDirection_contract EFWCalibrate_contract EFWSetID_contract)+
qed

text \<open>
  C2: for every entry point outside its family's allow-list, a nonzero return code that
  is no member of the family's error-code enumeration surfaces as a failure of its own:
  the \<open>ValueError\<close> of the enumeration lookup, carrying the unknown code. It is an
  exception, so not a success, and it is not one of the binding's named failures. This
  holds at the error mapper for every such entry-point name, and at the caller of every
  client method outside the allow-list, getter or setter, whatever the native call wrote
  into its by-reference arguments.
\<close>

theorem unknown_code_raises_value_error:
  fixes gi :: "c_int \<Rightarrow> c_int \<Rightarrow> c_int \<times> c_int"
    and gb :: "c_int \<Rightarrow> c_bool \<Rightarrow> c_int \<times> c_bool"
    and gm :: "c_int \<Rightarrow> c_bool \<Rightarrow> c_bool \<Rightarrow> c_int \<times> c_bool \<times> c_bool"
    and gt :: "c_int \<Rightarrow> c_float \<Rightarrow> c_int \<times> c_float"
    and gpa :: "c_int \<Rightarrow> EAF_INFO \<Rightarrow> c_int \<times> EAF_INFO"
    and gpw :: "c_int \<Rightarrow> EFW_INFO \<Rightarrow> c_int \<times> EFW_INFO"
    and gv :: "c_int \<Rightarrow> c_ubyte \<Rightarrow> c_ubyte \<Rightarrow> c_ubyte \<Rightarrow> c_int \<times> c_ubyte \<times> c_ubyte \<times> c_ubyte"
    and gsa :: "c_int \<Rightarrow> EAF_ID \<Rightarrow> c_int \<times> EAF_ID"
    and gsw :: "c_int \<Rightarrow> EFW_ID \<Rightarrow> c_int \<times> EFW_ID"
    and sa :: "c_int \<Rightarrow> c_int"
    and sv :: "c_int \<Rightarrow> c_int \<Rightarrow> c_int"
    and sb :: "c_int \<Rightarrow> c_bool \<Rightarrow> c_int"
    and sia :: "c_int \<Rightarrow> EAF_ID \<Rightarrow> c_int"
    and siw :: "c_int \<Rightarrow> EFW_ID \<Rightarrow> c_int"
  assumes "name_a \<notin> set eaf_special_names" and "name_w \<notin> set efw_special_names"
    and "code \<noteq> 0"
    and "code \<notin> set (map enum_value EAF_ERROR_CODE_members)"
    and "code \<notin> set (map enum_value EFW_ERROR_CODE_members)"
  shows "ZwoEafDevice_call name_a (RInt code) = Inl (ValueError (RInt code))
       \<and> ZwoEfwDevice_call name_w (RInt code) = Inl (ValueError (RInt code))
       \<and> isl (ZwoEafDevice_call name_a (RInt code))
       \<and> isl (ZwoEfwDevice_call name_w (RInt code))
       \<and> (\<forall>msg. ZwoEafDevice_call name_a (RInt code) \<noteq> Inl (ZwoFocuserError msg))
       \<and> (\<forall>msg. ZwoEfwDevice_call name_w (RInt code) \<noteq> Inl (ZwoFilterWheelError msg))
       \<and> eaf_unknown_code_contract (fst (gi (c_int ids) 0)) (EAFGetID gi ids)
       \<and> eaf_unknown_code_contract (fst (gi (c_int ids) 0)) (EAFGetPosition gi ids)
       \<and> eaf_unknown_code_contract (fst (gi (c_int ids) 0)) (EAFGetMaxStep gi ids)
       \<and> eaf_unknown_code_contract (fst (gi (c_int ids) 0)) (EAFStepRange gi ids)
       \<and> eaf_unknown_code_contract (fst (gi (c_int ids) 0)) (EAFGetBacklash gi ids)
       \<and> eaf_unknown_code_contract (fst (gb (c_int ids) False)) (EAFGetBeep gb ids)
       \<and> eaf_unknown_code_contract (fst (gb (c_int ids) False)) (EAFGetReverse gb ids)
       \<and> eaf_unknown_code_contract (fst (gm (c_int ids) False False)) (EAFIsMoving gm ids)
       \<and> eaf_unknown_code_contract (fst (gt (c_int ids) 0)) (EAFGetTemp gt ids)
       \<and> eaf_unknown_code_contract (fst (gpa (c_int ids) EAF_INFO_new))
           (EAFGetProperty gpa ids)
       \<and> eaf_unknown_code_contract (fst (gv (c_int ids) 0 0 0))
           (EAFGetFirmwareVersion gv ids)
       \<and> eaf_unknown_code_contract (fst (gsa (c_int ids) EAF_ID_new))
           (EAFGetSerialNumber gsa ids)
       \<and> eaf_unknown_code_contract (sa (c_int ids)) (EAFOpen sa ids)
       \<and> eaf_unknown_code_contract (sa (c_int ids)) (EAFStop sa ids)
       \<and> eaf_unknown_code_contract (sa (c_int ids)) (EAFClose sa ids)
       \<and> eaf_unknown_code_contract (sv (c_int ids) (c_int v)) (EAFMove sv ids v)
       \<and> eaf_unknown_code_contract (sv (c_int ids) (c_int v)) (EAFResetPostion sv ids v)
       \<and> eaf_unknown_code_contract (sv (c_int ids) (c_int v)) (EAFSetMaxStep sv ids v)
       \<and> eaf_unknown_code_contract (sv (c_int ids) (c_int v)) (EAFSetBacklash sv ids v)
       \<and> eaf_unknown_code_contract (sb (c_int ids) (c_bool flag)) (EAFSetBeep sb ids flag)
       \<and> eaf_unknown_code_contract (sb (c_int ids) (c_bool flag))
           (EAFSetReverse sb ids flag)
       \<and> eaf_unknown_code_contract (sia (c_int ids) eaf_id) (EAFSetID sia ids eaf_id)
       \<and> efw_unknown_code_contract (fst (gi (c_int ids) 0)) (EFWGetID gi ids)
       \<and> efw_unknown_code_contract (fst (gi (c_int ids) 0)) (EFWGetPosition gi ids)
       \<and> efw_unknown_code_contract (fst (gi (c_int ids) 0)) (EFWGetHWErrorCode gi ids)
       \<and> efw_unknown_code_contract (fst (gb (c_int ids) False)) (EFWGetDirection gb ids)
       \<and> efw_unknown_code_contract (fst (gpw (c_int ids) EFW_INFO_new))
           (EFWGetProperty gpw ids)
       \<and> efw_unknown_code_contract (fst (gv (c_int ids) 0 0 0))
           (EFWGetFirmwareVersion gv ids)
       \<and> efw_unknown_code_contract (fst (gsw (c_int ids) EFW_ID_new))
           (EFWGetSerialNumber gsw ids)
       \<and> efw_unknown_code_contract (sa (c_int ids)) (EFWOpen sa ids)
       \<and> efw_unknown_code_contract (sa (c_int ids)) (EFWClose sa ids)
       \<and> efw_unknown_code_contract (sa (c_int ids)) (EFWCalibrate sa ids)
       \<and> efw_unknown_code_contract (sv (c_int ids) (c_int v)) (EFWSetPosition sv ids v)
       \<and> efw_unknown_code_contract (sb (c_int ids) (c_bool flag))
           (EFWSetDirection sb ids flag)
       \<and> efw_unknown_code_contract (siw (c_int ids) efw_id) (EFWSetID siw ids efw_id)"
proof -
  have mapper: "ZwoEafDevice_call name_a (RInt code) = Inl (ValueError (RInt code))"
    "ZwoEfwDevice_call name_w (RInt code) = Inl (ValueError (RInt code))"
    "isl (ZwoEafDevice_call name_a (RInt code))"
    "isl (ZwoEfwDevice_call name_w (RInt code))"
    "\<forall>msg. ZwoEafDevice_call name_a (RInt code) \<noteq> Inl (ZwoFocuserError msg)"
    "\<forall>msg. ZwoEfwDevice_call name_w (RInt code) \<noteq> Inl (ZwoFilterWheelError msg)"
    using eaf_call_unknown [OF assms(1,3,4)] efw_call_unknown [OF assms(2,3,5)]
    by simp_all
  show ?thesis
    by (intro conjI)
      (rule mapper
        EAFGetID_unknown EAFGetPosition_unknown EAFGetMaxStep_unknown EAFStepRange_unknown
        EAFGetBacklash_unknown EAFGetBeep_unknown EAFGetReverse_unknown EAFIsMoving_unknown
        EAFGetTemp_unknown EAFGetProperty_unknown EAFGetFirmwareVersion_unknown
        EAFGetSerialNumber_unknown EAFOpen_unknown EAFStop_unknown EAFClose_unknown
        EAFMove_unknown EAFResetPostion_unknown EAFSetMaxStep_unknown EAFSetBacklash_unknown
        EAFSetBeep_unknown EAFSetReverse_unknown EAFSetID_unknown EFWGetID_unknown
        EFWGetPosition_unknown EFWGetHWErrorCode_unknown EFWGetDirection_unknown
        EFWGetProperty_unknown EFWGetFirmwareVersion_unknown EFWGetSerialNumber_unknown
        EFWOpen_unknown EFWClose_unknown EFWCalibrate_unknown EFWSetPosition_unknown
        EFWSetDirection_unknown EFWSetID_unknown)+
qed

theorem unknown_code_raises_value_error_witness:
  "ZwoEafDevice_call ''EAFMove'' (RInt 42) = Inl (ValueError (RInt 42))
   \<and> ZwoEfwDevice_call ''EFWSetPosition'' (RInt 42) = Inl (ValueError (RInt 42))
   \<and> EAFGetTemp (\<lambda>ids temperature. (42, 20)) 0 = Inl (ValueError (RInt 42))
   \<and> EAFMove (\<lambda>ids position. - 7) 0 1000 = Inl (ValueError (RInt (- 7)))
   \<and> EFWGetPosition (\<lambda>ids position. (42, 3)) 0 = Inl (ValueError (RInt 42))
   \<and> EFWSetPosition (\<lambda>ids position. 42) 0 2 = Inl (ValueError (RInt 42))"
proof -
  have a: "''EAFMove'' \<notin> set eaf_special_names" by (simp add: eaf_special_names_def)
  have w: "''EFWSetPosition'' \<notin> set efw_special_names" by (simp add: efw_special_names_def)
  have nz: "(42::int) \<noteq> 0" by simp
  have ua: "(42::int) \<notin> set (map enum_value EAF_ERROR_CODE_members)"
    by (simp add: EAF_ERROR_CODE_members_def enum_value_def)
  have uw: "(42::int) \<notin> set (map enum_value EFW_ERROR_CODE_members)"
    by (simp add: EFW_ERROR_CODE_members_def enum_value_def)
  have n7: "(- 7::int) \<notin> set (map enum_value EAF_ERROR_CODE_members)"
    by (simp add: EAF_ERROR_CODE_members_def enum_value_def)
  note inst = unknown_code_raises_value_error
    [where gt = "\<lambda>ids temperature. (42, 20)" and gi = "\<lambda>ids position. (42, 3)"
       and sv = "\<lambda>ids position. 42" and ids = 0 and v = 2, OF a w nz ua uw]
  note move = unknown_code_raises_value_error
    [where sv = "\<lambda>ids position. - 7" and ids = 0 and v = 1000, OF a w nz ua uw]
  from inst have "eaf_unknown_code_contract 42 (EAFGetTemp (\<lambda>ids temperature. (42, 20)) 0)"
    and "efw_unknown_code_contract 42 (EFWGetPosition (\<lambda>ids position. (42, 3)) 0)"
    and "efw_unknown_code_contract 42 (EFWSetPosition (\<lambda>ids position. 42) 0 2)"
    and "ZwoEafDevice_call ''EAFMove'' (RInt 42) = Inl (ValueError (RInt 42))"
    and "ZwoEfwDevice_call ''EFWSetPosition'' (RInt 42) = Inl (ValueError (RInt 42))"
    by simp_all
  moreover from move
  have "eaf_unknown_code_contract (- 7) (EAFMove (\<lambda>ids position. - 7) 0 1000)"
    by simp
  ultimately show ?thesis
    using ua uw n7 by (simp add: eaf_unknown_code_contract_def efw_unknown_code_contract_def)
qed

text \<open>
  C3: for every entry point outside a family's allow-list (\<open>name_a\<close> for the focuser,
  \<open>name_w\<close> for the filter wheel), a return value of 0 passes the error mapper, and a
  nonzero return value that is a member of the family's enumeration raises the family's
  failure named after that member. After a zero return every operation with
  by-reference outputs hands the caller what the native call wrote, and every setter
  reports \<open>True\<close>. After a nonzero return that is a member of the enumeration every one
  of these operations raises that failure to its caller, whatever else the native call
  (\<open>hi\<close>, \<open>hb\<close>, ... for the getters, \<open>ta\<close>, \<open>tv\<close>, ... for the setters) wrote.
\<close>

theorem zero_succeeds_known_code_raises:
  fixes gi :: "c_int \<Rightarrow> c_int \<Rightarrow> c_int \<times> c_int"
    and gb :: "c_int \<Rightarrow> c_bool \<Rightarrow> c_int \<times> c_bool"
    and gm :: "c_int \<Rightarrow> c_bool \<Rightarrow> c_bool \<Rightarrow> c_int \<times> c_bool \<times> c_bool"
    and gt :: "c_int \<Rightarrow> c_float \<Rightarrow> c_int \<times> c_float"
    and gpa :: "c_int \<Rightarrow> EAF_INFO \<Rightarrow> c_int \<times> EAF_INFO"
    and gpw :: "c_int \<Rightarrow> EFW_INFO \<Rightarrow> c_int \<times> EFW_INFO"
    and gv :: "c_int \<Rightarrow> c_ubyte \<Rightarrow> c_ubyte \<Rightarrow> c_ubyte \<Rightarrow> c_int \<times> c_ubyte \<times> c_ubyte \<times> c_ubyte"
    and gsa :: "c_int \<Rightarrow> EAF_ID \<Rightarrow> c_int \<times> EAF_ID"
    and gsw :: "c_int \<Rightarrow> EFW_ID \<Rightarrow> c_int \<times> EFW_ID"
    and sa :: "c_int \<Rightarrow> c_int" and sv :: "c_int \<Rightarrow> c_int \<Rightarrow> c_int"
    and sb :: "c_int \<Rightarrow> c_bool \<Rightarrow> c_int"
    and sia :: "c_int \<Rightarrow> EAF_ID \<Rightarrow> c_int" and siw :: "c_int \<Rightarrow> EFW_ID \<Rightarrow> c_int"
    and hi :: "c_int \<Rightarrow> c_int \<Rightarrow> c_int \<times> c_int"
    and hb :: "c_int \<Rightarrow> c_bool \<Rightarrow> c_int \<times> c_bool"
    and hm :: "c_int \<Rightarrow> c_bool \<Rightarrow> c_bool \<Rightarrow> c_int \<times> c_bool \<times> c_bool"
    and ht :: "c_int \<Rightarrow> c_float \<Rightarrow> c_int \<times> c_float"
    and hpa :: "c_int \<Rightarrow> EAF_INFO \<Rightarrow> c_int \<times> EAF_INFO"
    and hpw :: "c_int \<Rightarrow> EFW_INFO \<Rightarrow> c_int \<times> EFW_INFO"
    and hv :: "c_int \<Rightarrow> c_ubyte \<Rightarrow> c_ubyte \<Rightarrow> c_ubyte \<Rightarrow> c_int \<times> c_ubyte \<times> c_ubyte \<times> c_ubyte"
    and hsa :: "c_int \<Rightarrow> EAF_ID \<Rightarrow> c_int \<times> EAF_ID"
    and hsw :: "c_int \<Rightarrow> EFW_ID \<Rightarrow> c_int \<times> EFW_ID"
    and ta :: "c_int \<Rightarrow> c_int"
    and tv :: "c_int \<Rightarrow> c_int \<Rightarrow> c_int"
    and tb :: "c_int \<Rightarrow> c_bool \<Rightarrow> c_int"
    and tia :: "c_int \<Rightarrow> EAF_ID \<Rightarrow> c_int"
    and tiw :: "c_int \<Rightarrow> EFW_ID \<Rightarrow> c_int"
  assumes na: "name_a \<notin> set eaf_special_names" and nw: "name_w \<notin> set efw_special_names"
    and ma: "(ea, kind_a, code_a) \<in> set EAF_ERROR_CODE_members" and ca: "code_a \<noteq> 0"
    and mw: "(ew, kind_w, code_w) \<in> set EFW_ERROR_CODE_members" and cw: "code_w \<noteq> 0"
    and gi: "gi (c_int ids) 0 = (0, out_i)"
    and gb: "gb (c_int ids) False = (0, out_b)"
    and gm: "gm (c_int ids) False False = (0, moving, hand_control)"
    and gt: "gt (c_int ids) 0 = (0, temperature)"
    and gpa: "gpa (c_int ids) EAF_INFO_new = (0, info_a)"
    and gpw: "gpw (c_int ids) EFW_INFO_new = (0, info_w)"
    and gv: "gv (c_int ids) 0 0 0 = (0, major, minor, build)"
    and gsa: "gsa (c_int ids) EAF_ID_new = (0, serial_a)"
    and gsw: "gsw (c_int ids) EFW_ID_new = (0, serial_w)"
    and sa: "sa (c_int ids) = 0" and sv: "sv (c_int ids) (c_int v) = 0"
    and sb: "sb (c_int ids) (c_bool flag) = 0"
    and sia: "sia (c_int ids) eaf_id = 0" and siw: "siw (c_int ids) efw_id = 0"
  shows "ZwoEafDevice_call name_a (restype_c_int 0) = Inr (RInt 0)
       \<and> ZwoEfwDevice_call name_w (restype_c_int 0) = Inr (RInt 0)
       \<and> ZwoEafDevice_call name_a (RInt code_a) = Inl (ZwoFocuserError kind_a)
       \<and> ZwoEfwDevice_call name_w (RInt code_w)
           = Inl (ZwoFilterWheelError
                    (name_w @ '' error '' @ str_int code_w @ '' ('' @ kind_w @ '')''))
       \<and> EAFGetID gi ids = Inr (PInt (sint out_i))
       \<and> EAFGetPosition gi ids = Inr (PInt (sint out_i))
       \<and> EAFGetMaxStep gi ids = Inr (PInt (sint out_i))
       \<and> EAFStepRange gi ids = Inr (PInt (sint out_i))
       \<and> EAFGetBacklash gi ids = Inr (PInt (sint out_i))
       \<and> EFWGetID gi ids = Inr (PInt (sint out_i))
       \<and> EFWGetPosition gi ids = Inr (PInt (sint out_i))
       \<and> EFWGetHWErrorCode gi ids = Inr (PInt (sint out_i))
       \<and> EAFGetBeep gb ids = Inr (PBool out_b)
       \<and> EAFGetReverse gb ids = Inr (PBool out_b)
       \<and> EFWGetDirection gb ids = Inr (PBool out_b)
       \<and> EAFIsMoving gm ids
           = Inr (PDict [(''moving'', PBool moving), (''hand_control'', PBool hand_control)])
       \<and> EAFGetTemp gt ids = Inr (PFloat temperature)
       \<and> EAFGetProperty gpa ids = Inr (PEafInfo info_a)
       \<and> EFWGetProperty gpw ids = Inr (PEfwInfo info_w)
       \<and> EAFGetFirmwareVersion gv ids
           = Inr (PStr (str_int (uint major) @ ''.'' @ str_int (uint minor) @ ''.''
                        @ str_int (uint build)))
       \<and> EFWGetFirmwareVersion gv ids
           = Inr (PTuple [PInt (uint major), PInt (uint minor), PInt (uint build)])
       \<and> EAFGetSerialNumber gsa ids = Inr (PInt (from_bytes_big (EAF_ID_id serial_a)))
       \<and> EFWGetSerialNumber gsw ids = Inr (PEfwId serial_w)
       \<and> EAFOpen sa ids = Inr (PBool True)
       \<and> EAFStop sa ids = Inr (PBool True)
       \<and> EAFClose sa ids = Inr (PBool True)
       \<and> EAFMove sv ids v = Inr (PBool True)
       \<and> EAFResetPostion sv ids v = Inr (PBool True)
       \<and> EAFSetMaxStep sv ids v = Inr (PBool True)
       \<and> EAFSetBacklash sv ids v = Inr (PBool True)
       \<and> EAFSetBeep sb ids flag = Inr (PBool True)
       \<and> EAFSetReverse sb ids flag = Inr (PBool True)
       \<and> EAFSetID sia ids eaf_id = Inr (PBool True)
       \<and> EFWOpen sa ids = Inr (PBool True)
       \<and> EFWClose sa ids = Inr (PBool True)
       \<and> EFWCalibrate sa ids = Inr (PBool True)
       \<and> EFWSetPosition sv ids v = Inr (PBool True)
       \<and> EFWSetDirection sb ids flag = Inr (PBool True)
       \<and> EFWSetID siw ids efw_id = Inr (PBool True)
       \<and> eaf_known_code_contract (fst (hi (c_int ids) 0)) (EAFGetID hi ids)
       \<and> eaf_known_code_contract (fst (hi (c_int ids) 0)) (EAFGetPosition hi ids)
       \<and> eaf_known_code_contract (fst (hi (c_int ids) 0)) (EAFGetMaxStep hi ids)
       \<and> eaf_known_code_contract (fst (hi (c_int ids) 0)) (EAFStepRange hi ids)
       \<and> eaf_known_code_contract (fst (hi (c_int ids) 0)) (EAFGetBacklash hi ids)
       \<and> eaf_known_code_contract (fst (hb (c_int ids) False)) (EAFGetBeep hb ids)
       \<and> eaf_known_code_contract (fst (hb (c_int ids) False)) (EAFGetReverse hb ids)
       \<and> eaf_known_code_contract (fst (hm (c_int ids) False False)) (EAFIsMoving hm ids)
       \<and> eaf_known_code_contract (fst (ht (c_int ids) 0)) (EAFGetTemp ht ids)
       \<and> eaf_known_code_contract (fst (hpa (c_int ids) EAF_INFO_new))
           (EAFGetProperty hpa ids)
       \<and> eaf_known_code_contract (fst (hv (c_int ids) 0 0 0))
           (EAFGetFirmwareVersion hv ids)
       \<and> eaf_known_code_contract (fst (hsa (c_int ids) EAF_ID_new))
           (EAFGetSerialNumber hsa ids)
       \<and> eaf_known_code_contract (ta (c_int ids)) (EAFOpen ta ids)
       \<and> eaf_known_code_contract (ta (c_int ids)) (EAFStop ta ids)
       \<and> eaf_known_code_contract (ta (c_int ids)) (EAFClose ta ids)
       \<and> eaf_known_code_contract (tv (c_int ids) (c_int v)) (EAFMove tv ids v)
       \<and> eaf_known_code_contract (tv (c_int ids) (c_int v)) (EAFResetPostion tv ids v)
       \<and> eaf_known_code_contract (tv (c_int ids) (c_int v)) (EAFSetMaxStep tv ids v)
       \<and> eaf_known_code_contract (tv (c_int ids) (c_int v)) (EAFSetBacklash tv ids v)
       \<and> eaf_known_code_contract (tb (c_int ids) (c_bool flag)) (EAFSetBeep tb ids flag)
       \<and> eaf_known_code_contract (tb (c_int ids) (c_bool flag)) (EAFSetReverse tb ids flag)
       \<and> eaf_known_code_contract (tia (c_int ids) eaf_id) (EAFSetID tia ids eaf_id)
       \<and> efw_known_code_contract ''EFWGetID'' (fst (hi (c_int ids) 0)) (EFWGetID hi ids)
       \<and> efw_known_code_contract ''EFWGetPosition'' (fst (hi (c_int ids) 0))
           (EFWGetPosition hi ids)
       \<and> efw_known_code_contract ''EFWGetHWErrorCode'' (fst (hi (c_int ids) 0))
           (EFWGetHWErrorCode hi ids)
       \<and> efw_known_code_contract ''EFWGetDirection'' (fst (hb (c_int ids) False))
           (EFWGetDirection hb ids)
       \<and> efw_known_code_contract ''EFWGetProperty'' (fst (hpw (c_int ids) EFW_INFO_new))
           (EFWGetProperty hpw ids)
       \<and> efw_known_code_contract ''EFWGetFirmwareVersion'' (fst (hv (c_int ids) 0 0 0))
           (EFWGetFirmwareVersion hv ids)
       \<and> efw_known_code_contract ''EFWGetSerialNumber'' (fst (hsw (c_int ids) EFW_ID_new))
           (EFWGetSerialNumber hsw ids)
       \<and> efw_known_code_contract ''EFWOpen'' (ta (c_int ids)) (EFWOpen ta ids)
       \<and> efw_known_code_contract ''EFWClose'' (ta (c_int ids)) (EFWClose ta ids)
       \<and> efw_known_code_contract ''EFWCalibrate'' (ta (c_int ids)) (EFWCalibrate ta ids)
       \<and> efw_known_code_contract ''EFWSetPosition'' (tv (c_int ids) (c_int v))
           (EFWSetPosition tv ids v)
       \<and> efw_known_code_contract ''EFWSetDirection'' (tb (c_int ids) (c_bool flag))
           (EFWSetDirection tb ids flag)
       \<and> efw_known_code_contract ''EFWSetID'' (tiw (c_int ids) efw_id)
           (EFWSetID tiw ids efw_id)"
proof -
  note mapper = eaf_call_zero [of name_a] efw_call_zero [of name_w]
    eaf_call_known [OF na ca ma] efw_call_known [OF nw cw mw]
  note getters = EAFGetID_zero [of gi ids, OF gi] EAFGetPosition_zero [of gi ids, OF gi] EAFGetMaxStep_zero [of gi ids, OF gi]
    EAFStepRange_zero [of gi ids, OF gi] EAFGetBacklash_zero [of gi ids, OF gi] EFWGetID_zero [of gi ids, OF gi]
    EFWGetPosition_zero [of gi ids, OF gi] EFWGetHWErrorCode_zero [of gi ids, OF gi] EAFGetBeep_zero [of gb ids, OF gb]
    EAFGetReverse_zero [of gb ids, OF gb] EFWGetDirection_zero [of gb ids, OF gb] EAFIsMoving_zero [of gm ids, OF gm]
    EAFGetTemp_zero [of gt ids, OF gt] EAFGetProperty_zero [of gpa ids, OF gpa] EFWGetProperty_zero [of gpw ids, OF gpw]
    EAFGetFirmwareVersion_zero [of gv ids, OF gv] EFWGetFirmwareVersion_zero [of gv ids, OF gv]
    EAFGetSerialNumber_zero [of gsa ids, OF gsa] EFWGetSerialNumber_zero [of gsw ids, OF gsw]
  have setters_a:
    "EAFOpen sa ids = Inr (PBool True)" "EAFStop sa ids = Inr (PBool True)"
    "EAFClose sa ids = Inr (PBool True)" "EAFMove sv ids v = Inr (PBool True)"
    "EAFResetPostion sv ids v = Inr (PBool True)" "EAFSetMaxStep sv ids v = Inr (PBool True)"
    "EAFSetBacklash sv ids v = Inr (PBool True)" "EAFSetBeep sb ids flag = Inr (PBool True)"
    "EAFSetReverse sb ids flag = Inr (PBool True)" "EAFSetID sia ids eaf_id = Inr (PBool True)"
    using EAFOpen_contract [of sa ids] EAFStop_contract [of sa ids] EAFClose_contract [of sa ids]
      EAFMove_contract [of sv ids v] EAFResetPostion_contract [of sv ids v]
      EAFSetMaxStep_contract [of sv ids v] EAFSetBacklash_contract [of sv ids v]
      EAFSetBeep_contract [of sb ids flag] EAFSetReverse_contract [of sb ids flag]
      EAFSetID_contract [of sia ids eaf_id]
    by (simp_all only: sa sv sb sia focuser_contract_zero)
  have setters_w:
    "EFWOpen sa ids = Inr (PBool True)" "EFWClose sa ids = Inr (PBool True)"
    "EFWCalibrate sa ids = Inr (PBool True)" "EFWSetPosition sv ids v = Inr (PBool True)"
    "EFWSetDirection sb ids flag = Inr (PBool True)" "EFWSetID siw ids efw_id = Inr (PBool True)"
    using EFWOpen_contract [of sa ids] EFWClose_contract [of sa ids]
      EFWCalibrate_contract [of sa ids] EFWSetPosition_contract [of sv ids v]
      EFWSetDirection_contract [of sb ids flag] EFWSetID_contract [of siw ids efw_id]
    by (simp_all only: sa sv sb siw wheel_contract_zero)
  show ?thesis
    by (intro conjI)
      (rule mapper getters setters_a setters_w
        EAFGetID_known EAFGetPosition_known EAFGetMaxStep_known EAFStepRange_known
        EAFGetBacklash_known EAFGetBeep_known EAFGetReverse_known EAFIsMoving_known
        EAFGetTemp_known EAFGetProperty_known EAFGetFirmwareVersion_known
        EAFGetSerialNumber_known EAFOpen_known EAFStop_known EAFClose_known EAFMove_known
        EAFResetPostion_known EAFSetMaxStep_known EAFSetBacklash_known EAFSetBeep_known
        EAFSetReverse_known EAFSetID_known EFWGetID_known EFWGetPosition_known
        EFWGetHWErrorCode_known EFWGetDirection_known EFWGetProperty_known
        EFWGetFirmwareVersion_known EFWGetSerialNumber_known EFWOpen_known EFWClose_known
        EFWCalibrate_known EFWSetPosition_known EFWSetDirection_known EFWSetID_known)+
qed

theorem zero_succeeds_known_code_raises_witness:
  "ZwoEafDevice_call ''EAFMove'' (RInt 5) = Inl (ZwoFocuserError ''EAF_ERROR_MOVING'')
   \<and> ZwoEfwDevice_call ''EFWSetPosition'' (RInt 3)
       = Inl (ZwoFilterWheelError ''EFWSetPosition error 3 (EFW_ERROR_INVALID_VALUE)'')
   \<and> EAFGetPosition (\<lambda>ids position. (0, 1234)) 7 = Inr (PInt 1234)
   \<and> EAFIsMoving (\<lambda>ids moving hand_control. (0, True, False)) 7
       = Inr (PDict [(''moving'', PBool True), (''hand_control'', PBool False)])
   \<and> EFWGetHWErrorCode (\<lambda>ids position. (0, 1234)) 7 = Inr (PInt 1234)
   \<and> EFWSetPosition (\<lambda>ids position. 0) 7 2 = Inr (PBool True)
   \<and> EAFGetPosition (\<lambda>ids position. (5, 0)) 7 = Inl (ZwoFocuserError ''EAF_ERROR_MOVING'')
   \<and> EAFMove (\<lambda>ids position. - 1) 7 2 = Inl (ZwoFocuserError ''EAF_ERROR_END'')
   \<and> EFWGetProperty (\<lambda>ids info. (4, info)) 7
       = Inl (ZwoFilterWheelError ''EFWGetProperty error 4 (EFW_ERROR_REMOVED)'')
   \<and> EFWSetPosition (\<lambda>ids position. 3) 7 2
       = Inl (ZwoFilterWheelError ''EFWSetPosition error 3 (EFW_ERROR_INVALID_VALUE)'')"
proof -
  have na: "''EAFMove'' \<notin> set eaf_special_names" by (simp add: eaf_special_names_def)
  have nw: "''EFWSetPosition'' \<notin> set efw_special_names" by (simp add: efw_special_names_def)
  have ma: "(EAF_ERROR_MOVING, ''EAF_ERROR_MOVING'', 5) \<in> set EAF_ERROR_CODE_members"
    by (simp add: EAF_ERROR_CODE_members_def)
  have mw: "(EFW_ERROR_INVALID_VALUE, ''EFW_ERROR_INVALID_VALUE'', 3) \<in> set EFW_ERROR_CODE_members"
    by (simp add: EFW_ERROR_CODE_members_def)
  have ca: "(5::int) \<noteq> 0" and cw: "(3::int) \<noteq> 0" by simp_all
  note inst = zero_succeeds_known_code_raises
    [where name_a = "''EAFMove''" and name_w = "''EFWSetPosition''"
       and ea = EAF_ERROR_MOVING and kind_a = "''EAF_ERROR_MOVING''" and code_a = 5
       and ew = EFW_ERROR_INVALID_VALUE and kind_w = "''EFW_ERROR_INVALID_VALUE''" and code_w = 3
       and ids = 7 and v = 2 and flag = True
       and gi = "\<lambda>ids position. (0, 1234)" and out_i = 1234
       and gb = "\<lambda>ids flag. (0, True)" and out_b = True
       and gm = "\<lambda>ids moving hand_control. (0, True, False)"
       and moving = True and hand_control = False
       and gt = "\<lambda>ids temperature. (0, -273)" and temperature = "-273"
       and gpa = "\<lambda>ids info. (0, info)" and info_a = EAF_INFO_new
       and gpw = "\<lambda>ids info. (0, info)" and info_w = EFW_INFO_new
       and gv = "\<lambda>ids major minor build. (0, 1, 2, 15)"
       and major = 1 and minor = 2 and build = 15
       and gsa = "\<lambda>ids serial. (0, serial)" and serial_a = EAF_ID_new
       and gsw = "\<lambda>ids serial. (0, serial)" and serial_w = EFW_ID_new
       and sa = "\<lambda>ids. 0" and sv = "\<lambda>ids position. 0" and sb = "\<lambda>ids flag. 0"
       and sia = "\<lambda>ids eaf_id. 0" and eaf_id = EAF_ID_new
       and siw = "\<lambda>ids efw_id. 0" and efw_id = EFW_ID_new
       and hi = "\<lambda>ids position. (5, 0)" and hpw = "\<lambda>ids info. (4, info)",
     OF na nw ma ca mw cw refl refl refl refl refl refl refl refl refl refl refl refl refl refl]
  note wheel = inst [where tv = "\<lambda>ids position. 3"]
  note end_code = inst [where tv = "\<lambda>ids position. - 1"]
  from inst have zero:
    "ZwoEafDevice_call ''EAFMove'' (RInt 5) = Inl (ZwoFocuserError ''EAF_ERROR_MOVING'')"
    "ZwoEfwDevice_call ''EFWSetPosition'' (RInt 3)
       = Inl (ZwoFilterWheelError ''EFWSetPosition error 3 (EFW_ERROR_INVALID_VALUE)'')"
    "EAFGetPosition (\<lambda>ids position. (0, 1234)) 7 = Inr (PInt 1234)"
    "EAFIsMoving (\<lambda>ids moving hand_control. (0, True, False)) 7
       = Inr (PDict [(''moving'', PBool True), (''hand_control'', PBool False)])"
    "EFWGetHWErrorCode (\<lambda>ids position. (0, 1234)) 7 = Inr (PInt 1234)"
    "EFWSetPosition (\<lambda>ids position. 0) 7 2 = Inr (PBool True)"
    by (simp_all add: str_int_def str_nat.simps)
  from inst have known:
    "eaf_known_code_contract 5 (EAFGetPosition (\<lambda>ids position. (5, 0)) 7)"
    "efw_known_code_contract ''EFWGetProperty'' 4 (EFWGetProperty (\<lambda>ids info. (4, info)) 7)"
    by simp_all
  from wheel have known_wheel:
    "efw_known_code_contract ''EFWSetPosition'' 3 (EFWSetPosition (\<lambda>ids position. 3) 7 2)"
    by simp
  from end_code have known_end:
    "eaf_known_code_contract (- 1) (EAFMove (\<lambda>ids position. - 1) 7 2)"
    by simp
  have raised:
    "EAFGetPosition (\<lambda>ids position. (5, 0)) 7 = Inl (ZwoFocuserError ''EAF_ERROR_MOVING'')"
    "EAFMove (\<lambda>ids position. - 1) 7 2 = Inl (ZwoFocuserError ''EAF_ERROR_END'')"
    "EFWGetProperty (\<lambda>ids info. (4, info)) 7
       = Inl (ZwoFilterWheelError ''EFWGetProperty error 4 (EFW_ERROR_REMOVED)'')"
    "EFWSetPosition (\<lambda>ids position. 3) 7 2
       = Inl (ZwoFilterWheelError ''EFWSetPosition error 3 (EFW_ERROR_INVALID_VALUE)'')"
    using known known_wheel known_end
    by (simp_all add: eaf_known_code_contract_def efw_known_code_contract_def
        EAF_ERROR_CODE_members_def EFW_ERROR_CODE_members_def enum_value_def enum_name_def
        str_int_def str_nat.simps)
  from zero raised show ?thesis by simp
qed

text \<open>
  C4: evaluation at a failing native call. With a native return code of 1 the filter
  wheel's failure carries the operation's name, the code and the kind, while the
  focuser's failure carries the kind only: the name \<open>EAFMove\<close> is not in its payload.
\<close>

theorem focuser_failure_lacks_operation_name:
  "EAFMove (\<lambda>ids position. 1) 0 1000 = Inl (ZwoFocuserError ''EAF_ERROR_INVALID_INDEX'')
   \<and> EFWSetPosition (\<lambda>ids position. 1) 0 3
       = Inl (ZwoFilterWheelError ''EFWSetPosition error 1 (EFW_ERROR_INVALID_INDEX)'')"
  by (simp add: EAFMove_def EFWSetPosition_def ZwoEafDevice_call_def ZwoEfwDevice_call_def
      restype_c_int_def eaf_special_names_def efw_special_names_def enum_call_def
      EAF_ERROR_CODE_members_def EFW_ERROR_CODE_members_def enum_value_def enum_name_def
      str_int_def str_nat.simps)

text \<open>
  C5 (as stated: for every allow-listed function the caller gets the raw native return
  value as it is, and no failure is ever raised from it). The statement fails at the
  caller of the client methods: the product-ID query returns a tuple cut to the reported
  length, not the length 3 itself, and the SDK-version queries pass the value through
  \<open>bytes(...)\<close>, which raises \<open>TypeError\<close> for a null pointer, and for the focuser through
  \<open>.decode("ascii")\<close>, which raises \<open>UnicodeDecodeError\<close> for the byte 255.
\<close>

theorem allow_listed_value_not_always_returned_raw:
  "EFWGetSDKVersion None = Inl TypeError
   \<and> EAFGetSDKVersion None = Inl TypeError
   \<and> EAFGetSDKVersion (Some [255]) = Inl UnicodeDecodeError
   \<and> EAFGetProductIDs (\<lambda>buf. (3, buf)) = Inr (PTuple [PInt 0, PInt 0, PInt 0])
   \<and> EAFGetProductIDs (\<lambda>buf. (3, buf)) \<noteq> Inr (PInt 3)"
proof -
  have "EAFGetProductIDs (\<lambda>buf. (3, buf)) = Inr (PTuple [PInt 0, PInt 0, PInt 0])"
    using EAFGetProductIDs_slice [of "\<lambda>buf. (3, buf)" 3 "replicate EAF_ID_MAX 0"]
    by (simp add: py_slice_upto_def EAF_ID_MAX_def numeral_3_eq_3)
  moreover have "EFWGetSDKVersion None = Inl TypeError"
    by (simp add: EFWGetSDKVersion_def efw_call_special efw_special_names_def
        restype_c_char_p_def py_bytes_def)
  moreover have "EAFGetSDKVersion None = Inl TypeError"
    by (simp add: EAFGetSDKVersion_def eaf_call_special eaf_special_names_def
        restype_c_char_p_def py_bytes_def)
  moreover have "EAFGetSDKVersion (Some [255]) = Inl UnicodeDecodeError"
    by (simp add: EAFGetSDKVersion_def eaf_call_special eaf_special_names_def
        restype_c_char_p_def py_bytes_def decode_ascii_def)
  ultimately show ?thesis by simp
qed

text \<open>
  C5 (amended): for every function of a family's allow-list (get count, get product IDs
  and get SDK version, and for the focuser also check device type) the error mapper
  hands the native return value to the client method as it is, whatever the value (any
  integer, bytes or \<open>None\<close>), and raises nothing: the value is never taken for an error
  code. \<open>EAFGetNum\<close>, \<open>EFWGetNum\<close> and \<open>EAFCheck\<close> return it to their caller unchanged; the
  product-ID queries use it only as the bound of the slice of the buffer they return as
  a tuple; \<open>EFWGetSDKVersion\<close> returns the bytes of the string the native call returned,
  and \<open>EAFGetSDKVersion\<close> returns the text whose character codes are these bytes when all
  of them are ASCII.
\<close>

theorem allow_listed_result_returned_raw:
  fixes num :: c_int and check :: "c_int \<Rightarrow> c_int \<Rightarrow> c_int"
    and pids :: "c_int list \<Rightarrow> c_int \<times> c_int list"
  assumes a: "name_a \<in> set eaf_special_names" and w: "name_w \<in> set efw_special_names"
    and ascii: "list_all (\<lambda>b. b < 128) bs"
  shows "ZwoEafDevice_call name_a result_a = Inr result_a
       \<and> ZwoEfwDevice_call name_w result_w = Inr result_w
       \<and> set eaf_special_names
           = {''EAFGetNum'', ''EAFGetProductIDs'', ''EAFGetSDKVersion'', ''EAFCheck''}
       \<and> set efw_special_names = {''EFWGetNum'', ''EFWGetProductIDs'', ''EFWGetSDKVersion''}
       \<and> EAFGetNum num = Inr (PInt (sint num))
       \<and> EFWGetNum num = Inr (PInt (sint num))
       \<and> EAFCheck check vid pid = Inr (PInt (sint (check (c_int vid) (c_int pid))))
       \<and> (\<exists>vs. EAFGetProductIDs pids = Inr (PTuple vs))
       \<and> (\<exists>vs. EFWGetProductIDs pids = Inr (PTuple vs))
       \<and> EAFGetProductIDs pids
           = Inr (PTuple (map (\<lambda>w. PInt (sint w))
                   (py_slice_upto (snd (pids (replicate EAF_ID_MAX 0)))
                      (sint (fst (pids (replicate EAF_ID_MAX 0)))))))
       \<and> EFWGetProductIDs pids
           = Inr (PTuple (map (\<lambda>w. PInt (sint w))
                   (py_slice_upto (snd (pids (replicate EFW_ID_MAX 0)))
                      (sint (fst (pids (replicate EFW_ID_MAX 0)))))))
       \<and> EFWGetSDKVersion (Some sdk) = Inr (PBytes sdk)
       \<and> EAFGetSDKVersion (Some bs) = Inr (PStr (map (\<lambda>b. char_of (uint b)) bs))
       \<and> map of_char (map (\<lambda>b. char_of (uint b)) bs) = map uint bs"
proof -
  have "EAFGetNum num = Inr (PInt (sint num))"
    by (simp add: EAFGetNum_def eaf_call_special eaf_special_names_def restype_c_int_def)
  moreover have "EFWGetNum num = Inr (PInt (sint num))"
    by (simp add: EFWGetNum_def efw_call_special efw_special_names_def restype_c_int_def)
  moreover have "EAFCheck check vid pid = Inr (PInt (sint (check (c_int vid) (c_int pid))))"
    by (simp add: EAFCheck_def eaf_call_special eaf_special_names_def restype_c_int_def)
  moreover have "set eaf_special_names
      = {''EAFGetNum'', ''EAFGetProductIDs'', ''EAFGetSDKVersion'', ''EAFCheck''}"
    by (simp add: eaf_special_names_def)
  moreover have "set efw_special_names = {''EFWGetNum'', ''EFWGetProductIDs'', ''EFWGetSDKVersion''}"
    by (simp add: efw_special_names_def)
  moreover have "EAFGetProductIDs pids
      = Inr (PTuple (map (\<lambda>w. PInt (sint w))
              (py_slice_upto (snd (pids (replicate EAF_ID_MAX 0)))
                 (sint (fst (pids (replicate EAF_ID_MAX 0)))))))"
    by (rule EAFGetProductIDs_slice) simp
  moreover have "EFWGetProductIDs pids
      = Inr (PTuple (map (\<lambda>w. PInt (sint w))
              (py_slice_upto (snd (pids (replicate EFW_ID_MAX 0)))
                 (sint (fst (pids (replicate EFW_ID_MAX 0)))))))"
    by (rule EFWGetProductIDs_slice) simp
  ultimately show ?thesis
    using eaf_call_special [OF a, of result_a] efw_call_special [OF w, of result_w]
      EAFGetProductIDs_returns_tuple [of pids] EFWGetProductIDs_returns_tuple [of pids]
      EFWGetSDKVersion_string [of sdk] EAFGetSDKVersion_string [OF ascii] ascii_codes [of bs]
    by simp
qed

theorem allow_listed_result_returned_raw_witness:
  "ZwoEafDevice_call ''EAFCheck'' (RInt (- 7)) = Inr (RInt (- 7))
   \<and> ZwoEfwDevice_call ''EFWGetSDKVersion'' RNone = Inr RNone
   \<and> EAFGetNum (- 1) = Inr (PInt (- 1))
   \<and> EAFCheck (\<lambda>vid pid. 9) 1 2 = Inr (PInt 9)
   \<and> EFWGetSDKVersion (Some [49, 46, 48]) = Inr (PBytes [49, 46, 48])
   \<and> EAFGetSDKVersion (Some [49, 46, 48]) = Inr (PStr ''1.0'')"
proof -
  have a: "''EAFCheck'' \<in> set eaf_special_names" by (simp add: eaf_special_names_def)
  have w: "''EFWGetSDKVersion'' \<in> set efw_special_names" by (simp add: efw_special_names_def)
  have ascii: "list_all (\<lambda>b. b < 128) [49, 46, 48 :: c_ubyte]" by simp
  from allow_listed_result_returned_raw
    [where result_a = "RInt (- 7)" and result_w = RNone and num = "- 1"
       and check = "\<lambda>vid pid. 9" and vid = 1 and pid = 2 and sdk = "[49, 46, 48]",
     OF a w ascii]
  show ?thesis by (simp add: char_of_def)
qed

text \<open>
  C6 (as stated: the firmware-version query returns the text \<open>"major.minor.build"\<close>, in
  both families). The statement fails for the filter wheel: with the bytes (1, 2, 15)
  written by a successful native call, \<open>EFWGetFirmwareVersion\<close> returns the tuple of
  integers \<open>(1, 2, 15)\<close>, not the string \<open>"1.2.15"\<close>.
\<close>

theorem efw_firmware_version_is_a_triple:
  "EFWGetFirmwareVersion (\<lambda>ids major minor build. (0, 1, 2, 15)) 0
     = Inr (PTuple [PInt 1, PInt 2, PInt 15])
   \<and> EFWGetFirmwareVersion (\<lambda>ids major minor build. (0, 1, 2, 15)) 0 \<noteq> Inr (PStr ''1.2.15'')"
  by (simp add: EFWGetFirmwareVersion_def ZwoEfwDevice_call_def restype_c_int_def)

text \<open>
  C6 (amended): after a successful native call that wrote the bytes \<open>major\<close>, \<open>minor\<close>,
  \<open>build\<close>, the focuser's \<open>EAFGetFirmwareVersion\<close> returns the text of the three decimal
  numbers joined by dots, \<open>"1.2.15"\<close> for (1, 2, 15), and the filter wheel's
  \<open>EFWGetFirmwareVersion\<close> returns the three numbers as a tuple, \<open>(1, 2, 15)\<close> there.
\<close>

theorem firmware_version_text_or_triple:
  assumes "native (c_int ids) 0 0 0 = (0, major, minor, build)"
  shows "EAFGetFirmwareVersion native ids
           = Inr (PStr (str_int (uint major) @ ''.'' @ str_int (uint minor) @ ''.''
                        @ str_int (uint build)))
       \<and> EFWGetFirmwareVersion native ids
           = Inr (PTuple [PInt (uint major), PInt (uint minor), PInt (uint build)])
       \<and> (major = 1 \<and> minor = 2 \<and> build = 15
            \<longrightarrow> EAFGetFirmwareVersion native ids = Inr (PStr ''1.2.15'')
              \<and> EFWGetFirmwareVersion native ids = Inr (PTuple [PInt 1, PInt 2, PInt 15]))"
  using EAFGetFirmwareVersion_zero [of native ids, OF assms]
    EFWGetFirmwareVersion_zero [of native ids, OF assms]
  by (simp add: str_int_def str_nat.simps)

theorem firmware_version_text_or_triple_witness:
  "EAFGetFirmwareVersion (\<lambda>ids major minor build. (0, 1, 2, 15)) 3 = Inr (PStr ''1.2.15'')
   \<and> EAFGetFirmwareVersion (\<lambda>ids major minor build. (0, 10, 0, 255)) 3 = Inr (PStr ''10.0.255'')
   \<and> EFWGetFirmwareVersion (\<lambda>ids major minor build. (0, 1, 2, 15)) 3
       = Inr (PTuple [PInt 1, PInt 2, PInt 15])"
  using firmware_version_text_or_triple
      [where native = "\<lambda>ids major minor build. (0, 1, 2, 15)" and ids = 3
         and major = 1 and minor = 2 and build = 15, OF refl]
    firmware_version_text_or_triple
      [where native = "\<lambda>ids major minor build. (0, 10, 0, 255)" and ids = 3
         and major = 10 and minor = 0 and build = 255, OF refl]
  by (simp add: str_int_def str_nat.simps)

text \<open>
  C7: after a successful native call, \<open>EAFGetSerialNumber\<close> returns the 8-byte serial record
  read as a big-endian unsigned integer (all zero bytes but a last byte of 5 gives 5),
  and \<open>EFWGetSerialNumber\<close> returns the identifier record itself, undecoded.
\<close>

theorem serial_number_big_endian_or_raw:
  assumes "native_a (c_int ids) EAF_ID_new = (0, serial_a)"
    and "native_w (c_int ids) EFW_ID_new = (0, serial_w)"
  shows "EAFGetSerialNumber native_a ids = Inr (PInt (big_endian_value (EAF_ID_id serial_a)))
       \<and> (EAF_ID_id serial_a = [0, 0, 0, 0, 0, 0, 0, 5]
            \<longrightarrow> EAFGetSerialNumber native_a ids = Inr (PInt 5))
       \<and> EFWGetSerialNumber native_w ids = Inr (PEfwId serial_w)"
  using EAFGetSerialNumber_zero [of native_a ids, OF assms(1)]
    EFWGetSerialNumber_zero [of native_w ids, OF assms(2)]
  by (simp add: from_bytes_big_is_big_endian [symmetric] from_bytes_big_def)

theorem serial_number_big_endian_or_raw_witness:
  "EAFGetSerialNumber (\<lambda>ids serial. (0, \<lparr>EAF_ID_id = [0, 0, 0, 0, 0, 0, 0, 5]\<rparr>)) 1 = Inr (PInt 5)
   \<and> EAFGetSerialNumber (\<lambda>ids serial. (0, \<lparr>EAF_ID_id = [0, 0, 0, 0, 0, 0, 1, 2]\<rparr>)) 1
       = Inr (PInt 258)
   \<and> EFWGetSerialNumber (\<lambda>ids serial. (0, \<lparr>EFW_ID_id = [0, 0, 0, 0, 0, 0, 0, 5]\<rparr>)) 1
       = Inr (PEfwId \<lparr>EFW_ID_id = [0, 0, 0, 0, 0, 0, 0, 5]\<rparr>)"
  using serial_number_big_endian_or_raw
      [where native_a = "\<lambda>ids serial. (0, \<lparr>EAF_ID_id = [0, 0, 0, 0, 0, 0, 0, 5]\<rparr>)"
         and native_w = "\<lambda>ids serial. (0, \<lparr>EFW_ID_id = [0, 0, 0, 0, 0, 0, 0, 5]\<rparr>)"
         and ids = 1 and serial_a = "\<lparr>EAF_ID_id = [0, 0, 0, 0, 0, 0, 0, 5]\<rparr>"
         and serial_w = "\<lparr>EFW_ID_id = [0, 0, 0, 0, 0, 0, 0, 5]\<rparr>", OF refl refl]
    serial_number_big_endian_or_raw
      [where native_a = "\<lambda>ids serial. (0, \<lparr>EAF_ID_id = [0, 0, 0, 0, 0, 0, 1, 2]\<rparr>)"
         and native_w = "\<lambda>ids serial. (0, \<lparr>EFW_ID_id = [0, 0, 0, 0, 0, 0, 0, 5]\<rparr>)"
         and ids = 1 and serial_a = "\<lparr>EAF_ID_id = [0, 0, 0, 0, 0, 0, 1, 2]\<rparr>"
         and serial_w = "\<lparr>EFW_ID_id = [0, 0, 0, 0, 0, 0, 0, 5]\<rparr>", OF refl refl]
  by (simp add: from_bytes_big_is_big_endian [symmetric] from_bytes_big_def)

text \<open>
  C8: when the native get-product-IDs call reports a length \<open>n\<close> with \<open>0 \<le> n \<le> 128\<close> and leaves
  the buffer \<open>buf\<close> of 128 slots, the returned tuple has exactly \<open>n\<close> elements, the first \<open>n\<close>
  slots of \<open>buf\<close>; a reported length of 3 gives exactly slots 0, 1 and 2. Both families.
\<close>

theorem product_ids_truncated_to_reported_length:
  assumes a: "native_a (replicate EAF_ID_MAX 0) = (ret_a, buf_a)"
    and la: "length buf_a = EAF_ID_MAX"
    and ra: "0 \<le> sint ret_a" "sint ret_a \<le> 128"
    and w: "native_w (replicate EFW_ID_MAX 0) = (ret_w, buf_w)"
    and lw: "length buf_w = EFW_ID_MAX"
    and rw: "0 \<le> sint ret_w" "sint ret_w \<le> 128"
  shows "EAFGetProductIDs native_a
           = Inr (PTuple (map (\<lambda>w. PInt (sint w)) (take (nat (sint ret_a)) buf_a)))
       \<and> length (take (nat (sint ret_a)) buf_a) = nat (sint ret_a)
       \<and> (sint ret_a = 3 \<longrightarrow> EAFGetProductIDs native_a
             = Inr (PTuple [PInt (sint (buf_a ! 0)), PInt (sint (buf_a ! 1)),
                            PInt (sint (buf_a ! 2))]))
       \<and> EFWGetProductIDs native_w
           = Inr (PTuple (map (\<lambda>w. PInt (sint w)) (take (nat (sint ret_w)) buf_w)))
       \<and> length (take (nat (sint ret_w)) buf_w) = nat (sint ret_w)
       \<and> (sint ret_w = 3 \<longrightarrow> EFWGetProductIDs native_w
             = Inr (PTuple [PInt (sint (buf_w ! 0)), PInt (sint (buf_w ! 1)),
                            PInt (sint (buf_w ! 2))]))"
proof -
  from la ra have sa: "py_slice_upto buf_a (sint ret_a) = take (nat (sint ret_a)) buf_a"
    and na: "length (take (nat (sint ret_a)) buf_a) = nat (sint ret_a)"
    using py_slice_upto_in_range [of "sint ret_a" buf_a] by (simp_all add: EAF_ID_MAX_def)
  from lw rw have sw: "py_slice_upto buf_w (sint ret_w) = take (nat (sint ret_w)) buf_w"
    and nw: "length (take (nat (sint ret_w)) buf_w) = nat (sint ret_w)"
    using py_slice_upto_in_range [of "sint ret_w" buf_w] by (simp_all add: EFW_ID_MAX_def)
  have ea: "EAFGetProductIDs native_a
      = Inr (PTuple (map (\<lambda>w. PInt (sint w)) (take (nat (sint ret_a)) buf_a)))"
    using EAFGetProductIDs_slice [of native_a ret_a buf_a, OF a] sa by simp
  have ew: "EFWGetProductIDs native_w
      = Inr (PTuple (map (\<lambda>w. PInt (sint w)) (take (nat (sint ret_w)) buf_w)))"
    using EFWGetProductIDs_slice [of native_w ret_w buf_w, OF w] sw by simp
  have ta: "take 3 buf_a = [buf_a ! 0, buf_a ! 1, buf_a ! 2]"
    using la by (simp add: take_3_of_long EAF_ID_MAX_def)
  have tw: "take 3 buf_w = [buf_w ! 0, buf_w ! 1, buf_w ! 2]"
    using lw by (simp add: take_3_of_long EFW_ID_MAX_def)
  from ea ta have "sint ret_a = 3 \<longrightarrow> EAFGetProductIDs native_a
      = Inr (PTuple [PInt (sint (buf_a ! 0)), PInt (sint (buf_a ! 1)), PInt (sint (buf_a ! 2))])"
    by simp
  moreover from ew tw have "sint ret_w = 3 \<longrightarrow> EFWGetProductIDs native_w
      = Inr (PTuple [PInt (sint (buf_w ! 0)), PInt (sint (buf_w ! 1)), PInt (sint (buf_w ! 2))])"
    by simp
  ultimately show ?thesis using ea ew na nw by blast
qed

theorem product_ids_truncated_to_reported_length_witness:
  "EAFGetProductIDs (\<lambda>buf. (3, buf[0 := 7, 1 := 8, 2 := 9, 3 := 10]))
     = Inr (PTuple [PInt 7, PInt 8, PInt 9])
   \<and> EFWGetProductIDs (\<lambda>buf. (3, buf[0 := 7, 1 := 8, 2 := 9, 3 := 10]))
     = Inr (PTuple [PInt 7, PInt 8, PInt 9])"
proof -
  let ?native = "\<lambda>buf :: c_int list. (3 :: c_int, buf[0 := 7, 1 := 8, 2 := 9, 3 := 10])"
  let ?buf = "(replicate 128 (0 :: c_int))[0 := 7, 1 := 8, 2 := 9, 3 := 10]"
  have a: "?native (replicate EAF_ID_MAX 0) = (3, ?buf)" by (simp add: EAF_ID_MAX_def)
  have w: "?native (replicate EFW_ID_MAX 0) = (3, ?buf)" by (simp add: EFW_ID_MAX_def)
  have la: "length ?buf = EAF_ID_MAX" by (simp add: EAF_ID_MAX_def)
  have lw: "length ?buf = EFW_ID_MAX" by (simp add: EFW_ID_MAX_def)
  have r: "0 \<le> sint (3 :: c_int)" "sint (3 :: c_int) \<le> 128" by simp_all
  have three: "sint (3 :: c_int) = 3" by simp
  have slots: "?buf ! 0 = 7" "?buf ! 1 = 8" "?buf ! 2 = 9" by simp_all
  from three product_ids_truncated_to_reported_length
    [where native_a = ?native and native_w = ?native and ret_a = 3 and ret_w = 3
       and buf_a = ?buf and buf_w = ?buf, OF a la r w lw r]
  have "EAFGetProductIDs ?native
          = Inr (PTuple [PInt (sint (?buf ! 0)), PInt (sint (?buf ! 1)), PInt (sint (?buf ! 2))])"
    and "EFWGetProductIDs ?native
          = Inr (PTuple [PInt (sint (?buf ! 0)), PInt (sint (?buf ! 1)), PInt (sint (?buf ! 2))])"
    by blast+
  then show ?thesis
    by (simp only: slots) simp
qed

text \<open>
  C9: for (posix, 32bit), (posix, 64bit), (nt, 32bit) and (nt, 64bit) the lookup selects
  the documented (subdirectory, filename) pair in each family; for every other pair
  \<open>(os_name, bits)\<close> the import of the module ends in \<open>KeyError\<close> at the lookup, whatever the
  rest of the program \<open>rest\<close> would do with the library: nothing is loaded and no device
  call is reached.
\<close>

theorem resolver_selects_documented_library:
  assumes "(os_name, bits) \<notin> {(''posix'', ''32bit''), (''posix'', ''64bit''),
                                 (''nt'', ''32bit''), (''nt'', ''64bit'')}"
  shows "eaf_arch ''posix'' ''32bit'' = Inr (''linux32'', ''libEAFFocuser.so'')
       \<and> eaf_arch ''posix'' ''64bit'' = Inr (''linux64'', ''libEAFFocuser.so'')
       \<and> eaf_arch ''nt'' ''32bit'' = Inr (''win32'', ''EAF_focuser.dll'')
       \<and> eaf_arch ''nt'' ''64bit'' = Inr (''win64'', ''EAF_focuser.dll'')
       \<and> efw_arch ''posix'' ''32bit'' = Inr (''linux32'', ''libEFWFilter.so'')
       \<and> efw_arch ''posix'' ''64bit'' = Inr (''linux64'', ''libEFWFilter.so'')
       \<and> efw_arch ''nt'' ''32bit'' = Inr (''win32'', ''EFW_filter.dll'')
       \<and> efw_arch ''nt'' ''64bit'' = Inr (''win64'', ''EFW_filter.dll'')
       \<and> eaf_import os_name bits here rest_a
           = Inl (KeyError (if os_name = ''posix'' \<or> os_name = ''nt'' then bits else os_name))
       \<and> efw_import os_name bits here rest_w
           = Inl (KeyError (if os_name = ''posix'' \<or> os_name = ''nt'' then bits else os_name))"
proof -
  have "eaf_import os_name bits here rest_a
      = Inl (KeyError (if os_name = ''posix'' \<or> os_name = ''nt'' then bits else os_name))"
    by (simp only: eaf_import_def eaf_arch_unsupported [OF assms] sum.case)
  moreover have "efw_import os_name bits here rest_w
      = Inl (KeyError (if os_name = ''posix'' \<or> os_name = ''nt'' then bits else os_name))"
    by (simp only: efw_import_def efw_arch_unsupported [OF assms] sum.case)
  ultimately show ?thesis
    by (simp only: eaf_arch_supported efw_arch_supported simp_thms)
qed

theorem resolver_selects_documented_library_witness:
  "eaf_import ''java'' ''64bit'' ''/site-packages/zwo'' (\<lambda>loads. Inr loads) = Inl (KeyError ''java'')
   \<and> efw_import ''posix'' ''128bit'' ''/site-packages/zwo'' (\<lambda>loads. Inr loads)
       = Inl (KeyError ''128bit'')"
proof -
  have j: "(''java'', ''64bit'') \<notin> {(''posix'', ''32bit''), (''posix'', ''64bit''),
                                      (''nt'', ''32bit''), (''nt'', ''64bit'')}" by simp
  have p: "(''posix'', ''128bit'') \<notin> {(''posix'', ''32bit''), (''posix'', ''64bit''),
                                      (''nt'', ''32bit''), (''nt'', ''64bit'')}" by simp
  let ?rest = "\<lambda>loads :: load_request list. Inr loads :: pyexc + load_request list"
  from resolver_selects_documented_library
      [where rest_a = ?rest and rest_w = ?rest and here = "''/site-packages/zwo''", OF j]
    resolver_selects_documented_library
      [where rest_a = ?rest and rest_w = ?rest and here = "''/site-packages/zwo''", OF p]
  show ?thesis by simp
qed

text \<open>
  C10 (as stated: every nonzero native return makes a focuser setter raise
  \<open>ZwoFocuserError\<close>). The statement fails for a nonzero code outside the enumeration:
  with a native return code of 10, \<open>EAFOpen\<close> neither raises \<open>ZwoFocuserError\<close> nor returns
  \<open>True\<close>; the enumeration lookup raises \<open>ValueError\<close>.
\<close>

theorem eaf_open_unknown_code_value_error:
  "EAFOpen (\<lambda>ids. 10) 0 = Inl (ValueError (RInt 10))
   \<and> \<not> ((\<exists>msg. EAFOpen (\<lambda>ids. 10) 0 = Inl (ZwoFocuserError msg))
          \<or> EAFOpen (\<lambda>ids. 10) 0 = Inr (PBool True))"
  by (simp add: EAFOpen_def ZwoEafDevice_call_def restype_c_int_def eaf_special_names_def
      enum_call_def EAF_ERROR_CODE_members_def enum_value_def)

text \<open>
  C10 (amended): for \<open>EAFOpen\<close>, \<open>EAFMove\<close>, \<open>EAFStop\<close>, \<open>EAFResetPostion\<close>, \<open>EAFSetBeep\<close>,
  \<open>EAFSetMaxStep\<close>, \<open>EAFSetReverse\<close>, \<open>EAFSetBacklash\<close>, \<open>EAFClose\<close> and \<open>EAFSetID\<close>, and for
  every native return value, \<open>False\<close> is never returned: the operation returns \<open>True\<close>
  exactly for a zero return and raises exactly for a nonzero one, a \<open>ZwoFocuserError\<close>
  when the code is in the enumeration and a \<open>ValueError\<close> otherwise.
\<close>

theorem focuser_setters_never_false:
  fixes n1 :: "c_int \<Rightarrow> c_int" and n2 :: "c_int \<Rightarrow> c_int \<Rightarrow> c_int"
    and nb :: "c_int \<Rightarrow> c_bool \<Rightarrow> c_int" and ni :: "c_int \<Rightarrow> EAF_ID \<Rightarrow> c_int"
  shows "focuser_bool_contract (n1 (c_int ids)) (EAFOpen n1 ids)
       \<and> focuser_bool_contract (n2 (c_int ids) (c_int position)) (EAFMove n2 ids position)
       \<and> focuser_bool_contract (n1 (c_int ids)) (EAFStop n1 ids)
       \<and> focuser_bool_contract (n2 (c_int ids) (c_int position)) (EAFResetPostion n2 ids position)
       \<and> focuser_bool_contract (nb (c_int ids) (c_bool beep)) (EAFSetBeep nb ids beep)
       \<and> focuser_bool_contract (n2 (c_int ids) (c_int position)) (EAFSetMaxStep n2 ids position)
       \<and> focuser_bool_contract (nb (c_int ids) (c_bool direction)) (EAFSetReverse nb ids direction)
       \<and> focuser_bool_contract (n2 (c_int ids) (c_int backlash)) (EAFSetBacklash n2 ids backlash)
       \<and> focuser_bool_contract (n1 (c_int ids)) (EAFClose n1 ids)
       \<and> focuser_bool_contract (ni (c_int ids) eaf_id) (EAFSetID ni ids eaf_id)"
  by (intro conjI)
    (rule EAFOpen_contract EAFMove_contract EAFStop_contract EAFResetPostion_contract
      EAFSetBeep_contract EAFSetMaxStep_contract EAFSetReverse_contract EAFSetBacklash_contract
      EAFClose_contract EAFSetID_contract)+

end
